theory Spec2Isabelle
  imports Main
begin

section \<open>Errors\<close>

text \<open>
  The exceptions that \<^verbatim>\<open>cubes/model.py\<close> raises, as values. The classes imported
  from \<^verbatim>\<open>cubes.errors\<close> carry the message the source formats; the exceptions that
  the Python runtime raises by itself (an undefined name, a missing attribute, a missing
  key) carry the offending name.
\<close>

datatype error =
    ModelError string
  | ModelInconsistencyError string
  | NoSuchAttributeError string
  | NoSuchDimensionError string
  | ArgumentError string
  | NameError string
  | AttributeError string
  | KeyError string
  | IndexError string
  | ValueError string

text \<open>The character \<^verbatim>\<open>'\<close>, which the messages of the source quote names with.\<close>

definition apostrophe :: string where
  "apostrophe = [CHR 0x27]"

section \<open>Aggregate references\<close>

text \<open>
  \<^verbatim>\<open>aggregate_ref(measure, aggregate)\<close> formats \<^verbatim>\<open>"%s_%s"\<close>: both names joined by
  an underscore.
\<close>

definition aggregate_ref :: "string \<Rightarrow> string \<Rightarrow> string" where
  "aggregate_ref measure_name aggregate = measure_name @ ''_'' @ aggregate"

text \<open>
  Python's \<^verbatim>\<open>str.rfind\<close> for a one-character pattern: the highest index at which the
  character stands, and \<^verbatim>\<open>-1\<close> when it stands nowhere.
\<close>

fun rfind :: "string \<Rightarrow> char \<Rightarrow> int" where
  "rfind [] c = - 1"
| "rfind (x # xs) c =
     (let r = rfind xs c
      in if r \<noteq> - 1 then r + 1 else if x = c then 0 else - 1)"

text \<open>
  \<^verbatim>\<open>split_aggregate_ref(measure)\<close>: the position \<^verbatim>\<open>r\<close> of the last underscore; the
  \<^verbatim>\<open>ArgumentError\<close> with the suggested name when there is none or when it is the last
  character; otherwise the pair \<^verbatim>\<open>(measure[:r], measure[r + 1:])\<close>.
\<close>

definition split_aggregate_ref :: "string \<Rightarrow> error + string \<times> string" where
  "split_aggregate_ref measure_ref =
     (let r = rfind measure_ref (CHR ''_'')
      in if r = - 1 \<or> r \<ge> int (length measure_ref) - 1
         then
           (let meaning = (if r = - 1 then measure_ref @ ''_sum'' else measure_ref @ ''sum'')
            in Inl (ArgumentError (''Invalid aggregate reference '' @ apostrophe @ measure_ref
                     @ apostrophe @ ''. Did you mean '' @ apostrophe @ meaning
                     @ apostrophe @ ''?'')))
         else Inr (take (nat r) measure_ref, drop (nat (r + 1)) measure_ref))"

section \<open>The object graph\<close>

text \<open>
  The classes of \<^verbatim>\<open>cubes/model.py\<close> are mutable and refer to each other (an attribute
  to its dimension, a hierarchy to its dimension, a model and its cubes to the same
  dimension objects), so objects live in a store and are named by their address: two
  references are the same object exactly when the addresses are equal (Python's
  \<^verbatim>\<open>is\<close>). References are typed: a field that holds a \<^verbatim>\<open>Dimension\<close> holds the
  address of a dimension. The records keep the fields that the modelled methods read or
  write; \<^verbatim>\<open>info\<close>, \<^verbatim>\<open>format\<close>, \<^verbatim>\<open>order\<close> and the backend fields of a cube
  (\<^verbatim>\<open>mappings\<close>, \<^verbatim>\<open>joins\<close>, \<^verbatim>\<open>fact\<close>, ...) are plain data that none of them
  inspects and are left out. A field that may be \<^verbatim>\<open>None\<close> is an option.
\<close>

type_synonym addr = nat

datatype 'a res = Raise error | Return 'a

text \<open>Python's truth test of a value that is \<^verbatim>\<open>None\<close> or a string.\<close>

definition truthy :: "string option \<Rightarrow> bool" where
  "truthy v = (case v of None \<Rightarrow> False | Some s \<Rightarrow> s \<noteq> [])"

text \<open>
  An \<^verbatim>\<open>OrderedDict\<close> (and a \<^verbatim>\<open>dict\<close>, where the source never depends on the order
  of more than one entry) is a list of pairs with distinct keys, in the order of
  insertion. \<^verbatim>\<open>d[k] = v\<close> replaces the value of a key that is present, in place, and
  appends a new key.
\<close>

fun od_set :: "(string \<times> 'v) list \<Rightarrow> string \<Rightarrow> 'v \<Rightarrow> (string \<times> 'v) list" where
  "od_set [] k v = [(k, v)]"
| "od_set (p # d) k v = (if fst p = k then (k, v) # d else p # od_set d k v)"

definition od_keys :: "(string \<times> 'v) list \<Rightarrow> string list" where
  "od_keys d = map fst d"

definition od_values :: "(string \<times> 'v) list \<Rightarrow> 'v list" where
  "od_values d = map snd d"

text \<open>\<^verbatim>\<open>OrderedDict((key(x), x) for x in xs)\<close>: the entries are set one after the other.\<close>

fun od_from :: "(string \<times> 'v) list \<Rightarrow> (string \<times> 'v) list \<Rightarrow> (string \<times> 'v) list" where
  "od_from d [] = d"
| "od_from d (p # ps) = od_from (od_set d (fst p) (snd p)) ps"

record attribute =
  attr_name :: string
  attr_label :: "string option"
  attr_description :: "string option"
  attr_dimension :: "addr option"
  attr_locales :: "string list"

record measure =
  meas_name :: string
  meas_label :: "string option"
  meas_description :: "string option"
  meas_aggregates :: "string list option"

record measure_aggregate =
  agg_name :: string
  agg_label :: "string option"
  agg_description :: "string option"
  agg_measure :: "string option"
  agg_function :: "string option"

record level =
  lvl_name :: string
  lvl_label :: "string option"
  lvl_description :: "string option"
  lvl_dimension :: "addr option"
  lvl_attributes :: "addr list"
  lvl_key :: "addr option"
  lvl_label_attribute :: "addr option"
  lvl_order_attribute :: "addr option"

text \<open>A hierarchy is given its levels as names or as \<^verbatim>\<open>Level\<close> objects.\<close>

datatype level_ref = LevelName string | LevelObj addr

record hierarchy =
  hier_name :: string
  hier_label :: "string option"
  hier_description :: "string option"
  hier_level_refs :: "level_ref list"
  hier_levels :: "(string \<times> addr) list option"
  hier_dimension :: "addr option"

record dimension =
  dim_name :: string
  dim_label :: "string option"
  dim_description :: "string option"
  dim_levels :: "(string \<times> addr) list"
  dim_attributes :: "(string \<times> addr) list"
  dim_hierarchies :: "(string \<times> addr) list"
  dim_flat_hierarchy :: "addr option"
  dim_default_hierarchy_name :: "string option"

text \<open>
  Translations are plain data. \<^verbatim>\<open>localize_common\<close> takes a string (the label) or a
  dictionary that may hold \<^verbatim>\<open>"label"\<close> and \<^verbatim>\<open>"description"\<close>; the translation of
  a level, a cube, a dimension and a model holds further dictionaries, keyed by the
  names of the objects below. A key that is absent is \<^verbatim>\<open>None\<close> here, or the empty
  list where the source treats an absent and an empty dictionary alike; the
  dictionaries hold no key but those that the source reads.
\<close>

datatype common_trans = TransString string | TransDict "string option" "string option"

record level_trans_dict =
  lt_label :: "string option"
  lt_description :: "string option"
  lt_attributes :: "(string \<times> common_trans) list"

datatype level_trans = LevelTransString string | LevelTransDict level_trans_dict

record cube_trans_dict =
  ct_label :: "string option"
  ct_description :: "string option"
  ct_measures :: "(string \<times> common_trans) list"
  ct_aggregates :: "(string \<times> common_trans) list"
  ct_details :: "(string \<times> common_trans) list"

datatype cube_trans = CubeTransString string | CubeTransDict cube_trans_dict

record dimension_trans_dict =
  dt_label :: "string option"
  dt_description :: "string option"
  dt_attributes :: "(string \<times> common_trans) list"
  dt_levels :: "(string \<times> level_trans) list"
  dt_hierarcies :: "(string \<times> common_trans) list"

datatype dimension_trans = DimensionTransString string | DimensionTransDict dimension_trans_dict

record model_trans =
  mt_locale :: "string option"
  mt_label :: "string option"
  mt_description :: "string option"
  mt_cubes :: "(string \<times> cube_trans) list"
  mt_dimensions :: "(string \<times> dimension_trans) list"

record cube =
  cube_name :: string
  cube_label :: "string option"
  cube_description :: "string option"
  cube_locale :: "string option"
  cube_dimensions :: "(string \<times> addr) list"
  cube_measures :: "(string \<times> addr) list"
  cube_aggregates :: "(string \<times> addr) list"
  cube_details :: "addr list"

record model =
  model_name :: "string option"
  model_label :: "string option"
  model_description :: "string option"
  model_locale :: "string option"
  model_dimensions :: "(string \<times> addr) list"
  model_cubes :: "(string \<times> addr) list"
  model_translations :: "(string \<times> model_trans) list"

text \<open>
  The store: one table for each class, and the next free address. Addresses below
  \<^verbatim>\<open>next_addr\<close> are the objects created so far.
\<close>

record heap =
  attrs :: "addr \<Rightarrow> attribute"
  meass :: "addr \<Rightarrow> measure"
  aggs :: "addr \<Rightarrow> measure_aggregate"
  lvls :: "addr \<Rightarrow> level"
  hiers :: "addr \<Rightarrow> hierarchy"
  dims :: "addr \<Rightarrow> dimension"
  cubes :: "addr \<Rightarrow> cube"
  models :: "addr \<Rightarrow> model"
  next_addr :: addr

text \<open>The store in which nothing has been created.\<close>

definition empty_heap :: heap where
  "empty_heap =
     \<lparr>attrs = (\<lambda>a. \<lparr>attr_name = [], attr_label = None, attr_description = None,
                    attr_dimension = None, attr_locales = []\<rparr>),
      meass = (\<lambda>a. \<lparr>meas_name = [], meas_label = None, meas_description = None,
                    meas_aggregates = None\<rparr>),
      aggs = (\<lambda>a. \<lparr>agg_name = [], agg_label = None, agg_description = None,
                   agg_measure = None, agg_function = None\<rparr>),
      lvls = (\<lambda>a. \<lparr>lvl_name = [], lvl_label = None, lvl_description = None,
                   lvl_dimension = None, lvl_attributes = [], lvl_key = None,
                   lvl_label_attribute = None, lvl_order_attribute = None\<rparr>),
      hiers = (\<lambda>a. \<lparr>hier_name = [], hier_label = None, hier_description = None,
                    hier_level_refs = [], hier_levels = None, hier_dimension = None\<rparr>),
      dims = (\<lambda>a. \<lparr>dim_name = [], dim_label = None, dim_description = None,
                   dim_levels = [], dim_attributes = [], dim_hierarchies = [],
                   dim_flat_hierarchy = None, dim_default_hierarchy_name = None\<rparr>),
      cubes = (\<lambda>a. \<lparr>cube_name = [], cube_label = None, cube_description = None,
                    cube_locale = None, cube_dimensions = [], cube_measures = [],
                    cube_aggregates = [], cube_details = []\<rparr>),
      models = (\<lambda>a. \<lparr>model_name = None, model_label = None, model_description = None,
                     model_locale = None, model_dimensions = [], model_cubes = [],
                     model_translations = []\<rparr>),
      next_addr = 0\<rparr>"

section \<open>Attribute references\<close>

text \<open>\<^verbatim>\<open>Level.has_details\<close>: the level has more than one attribute.\<close>

definition Level_has_details :: "heap \<Rightarrow> addr \<Rightarrow> bool" where
  "Level_has_details h l = (length (lvl_attributes (lvls h l)) > 1)"

text \<open>\<^verbatim>\<open>Dimension.levels\<close>: the values of \<^verbatim>\<open>_levels\<close>, in order.\<close>

definition Dimension_levels :: "heap \<Rightarrow> addr \<Rightarrow> addr list" where
  "Dimension_levels h d = od_values (dim_levels (dims h d))"

text \<open>\<^verbatim>\<open>Dimension.has_details\<close>: \<^verbatim>\<open>any\<close> over the levels' \<^verbatim>\<open>has_details\<close>.\<close>

definition Dimension_has_details :: "heap \<Rightarrow> addr \<Rightarrow> bool" where
  "Dimension_has_details h d = list_ex (Level_has_details h) (od_values (dim_levels (dims h d)))"

text \<open>\<^verbatim>\<open>Dimension.is_flat\<close>: the dimension has one level.\<close>

definition Dimension_is_flat :: "heap \<Rightarrow> addr \<Rightarrow> bool" where
  "Dimension_is_flat h d = (length (Dimension_levels h d) = 1)"

text \<open>
  Python's \<^verbatim>\<open>%s\<close> of a list of strings, for strings that \<^verbatim>\<open>repr\<close> writes between
  apostrophes as they are (no apostrophe, backslash or unprintable character).
\<close>

fun join_comma :: "string list \<Rightarrow> string" where
  "join_comma [] = []"
| "join_comma [x] = x"
| "join_comma (x # y # ys) = x @ '', '' @ join_comma (y # ys)"

definition repr_list :: "string list \<Rightarrow> string" where
  "repr_list xs = ''['' @ join_comma (map (\<lambda>s. apostrophe @ s @ apostrophe) xs) @ '']''"

text \<open>
  \<^verbatim>\<open>Attribute.ref(simplify=True, locale=None)\<close>. The locale suffix first (an
  \<^verbatim>\<open>ArgumentError\<close> when a locale is asked for that the attribute does not have), then
  the reference: the dimension's name alone when \<^verbatim>\<open>simplify\<close> holds and the dimension
  is flat and has no details, the dimension's name, a dot and the attribute's name
  otherwise, and the attribute's name when the attribute has no dimension.
\<close>

definition Attribute_ref :: "heap \<Rightarrow> addr \<Rightarrow> bool \<Rightarrow> string option \<Rightarrow> error + string" where
  "Attribute_ref h a simplify locale =
     (let self = attrs h a;
          suffix =
            (case locale of
               None \<Rightarrow> Inr []
             | Some loc \<Rightarrow>
                 if loc = [] then Inr []
                 else if attr_locales self = []
                 then Inl (ArgumentError (''Attribute '' @ apostrophe @ attr_name self @ apostrophe
                        @ '' is not loalizable (localization '' @ loc @ '' requested)''))
                 else if loc \<notin> set (attr_locales self)
                 then Inl (ArgumentError (''Attribute '' @ apostrophe @ attr_name self @ apostrophe
                        @ '' has no localization '' @ loc @ '' (has: ''
                        @ repr_list (attr_locales self) @ '')''))
                 else Inr (''.'' @ loc))
      in case suffix of
           Inl e \<Rightarrow> Inl e
         | Inr locale_suffix \<Rightarrow>
             (let reference =
                (case attr_dimension self of
                   Some d \<Rightarrow>
                     if simplify \<and> (Dimension_is_flat h d \<and> \<not> Dimension_has_details h d)
                     then dim_name (dims h d)
                     else dim_name (dims h d) @ ''.'' @ attr_name self
                 | None \<Rightarrow> attr_name self)
              in Inr (reference @ locale_suffix)))"

section \<open>Hierarchies and the default hierarchy\<close>

text \<open>Python's \<^verbatim>\<open>%d\<close> of a number that is not negative.\<close>

fun string_of_nat :: "nat \<Rightarrow> string" where
  "string_of_nat n =
     (if n < 10 then [char_of (48 + n)]
      else string_of_nat (n div 10) @ [char_of (48 + n mod 10)])"

text \<open>
  \<^verbatim>\<open>Dimension.level(obj)\<close>: a name is looked up in \<^verbatim>\<open>_levels\<close> (a \<^verbatim>\<open>KeyError\<close>
  when it is not there), a \<^verbatim>\<open>Level\<close> object is returned as it is.
\<close>

definition Dimension_level :: "heap \<Rightarrow> addr \<Rightarrow> level_ref \<Rightarrow> addr res" where
  "Dimension_level h d obj =
     (case obj of
        LevelName s \<Rightarrow>
          (case map_of (dim_levels (dims h d)) s of
             None \<Rightarrow> Raise (KeyError (''No level '' @ s @ '' in dimension '' @ dim_name (dims h d)))
           | Some l \<Rightarrow> Return l)
      | LevelObj l \<Rightarrow> Return l)"

text \<open>The \<^verbatim>\<open>_levels\<close> dictionary of a hierarchy, once it is one.\<close>

definition hier_levels_dict :: "hierarchy \<Rightarrow> (string \<times> addr) list" where
  "hier_levels_dict hr = (case hier_levels hr of None \<Rightarrow> [] | Some ls \<Rightarrow> ls)"

text \<open>
  The loop of \<^verbatim>\<open>Hierarchy._set_levels\<close>: each level reference is resolved by the
  hierarchy's dimension (an \<^verbatim>\<open>AttributeError\<close> when the hierarchy has none) and stored
  under the level's name. An exception leaves the entries stored so far.
\<close>

fun Hierarchy_set_levels_loop :: "heap \<Rightarrow> addr \<Rightarrow> level_ref list \<Rightarrow> unit res \<times> heap" where
  "Hierarchy_set_levels_loop h self [] = (Return (), h)"
| "Hierarchy_set_levels_loop h self (level # levels) =
     (case hier_dimension (hiers h self) of
        None \<Rightarrow> (Raise (AttributeError ''dimension''), h)
      | Some d \<Rightarrow>
          (case Dimension_level h d level of
             Raise e \<Rightarrow> (Raise e, h)
           | Return l \<Rightarrow>
               Hierarchy_set_levels_loop
                 (h\<lparr>hiers := (hiers h)(self := (hiers h self)
                      \<lparr>hier_levels :=
                         Some (od_set (hier_levels_dict (hiers h self)) (lvl_name (lvls h l)) l)\<rparr>)\<rparr>)
                 self levels))"

text \<open>
  \<^verbatim>\<open>Hierarchy._set_levels(levels)\<close>: a \<^verbatim>\<open>ModelInconsistencyError\<close> for an empty
  list; otherwise \<^verbatim>\<open>_levels\<close> becomes a new dictionary that the loop fills.
\<close>

definition Hierarchy_set_levels :: "heap \<Rightarrow> addr \<Rightarrow> level_ref list \<Rightarrow> unit res \<times> heap" where
  "Hierarchy_set_levels h self levels =
     (if levels = []
      then (Raise (ModelInconsistencyError (''Hierarchy level list should not be empty (in ''
              @ hier_name (hiers h self) @ '')'')), h)
      else Hierarchy_set_levels_loop
             (h\<lparr>hiers := (hiers h)(self := (hiers h self)\<lparr>hier_levels := Some []\<rparr>)\<rparr>)
             self levels)"

text \<open>
  The property \<^verbatim>\<open>Hierarchy.levels\<close>: when \<^verbatim>\<open>_levels\<close> is \<^verbatim>\<open>None\<close> or empty it
  is first set from the references the hierarchy was created with; the result is the
  list of its values.
\<close>

definition Hierarchy_levels :: "heap \<Rightarrow> addr \<Rightarrow> addr list res \<times> heap" where
  "Hierarchy_levels h self =
     (case (if hier_levels_dict (hiers h self) = []
            then Hierarchy_set_levels h self (hier_level_refs (hiers h self))
            else (Return (), h)) of
        (Raise e, h') \<Rightarrow> (Raise e, h')
      | (Return u, h') \<Rightarrow> (Return (od_values (hier_levels_dict (hiers h' self))), h'))"

text \<open>\<^verbatim>\<open>Hierarchy.__len__\<close>: the number of levels.\<close>

definition Hierarchy_len :: "heap \<Rightarrow> addr \<Rightarrow> nat res \<times> heap" where
  "Hierarchy_len h self =
     (case Hierarchy_levels h self of
        (Raise e, h') \<Rightarrow> (Raise e, h')
      | (Return ls, h') \<Rightarrow> (Return (length ls), h'))"

text \<open>
  The body of \<^verbatim>\<open>if not hierarchy:\<close> in \<^verbatim>\<open>Dimension._default_hierarchy()\<close>: the
  only hierarchy when there is exactly one; with no hierarchy and one level the flat
  hierarchy, whose creation reads the names \<^verbatim>\<open>level\<close> and \<^verbatim>\<open>levels\<close>, which are
  bound nowhere in the function or the module (\<^verbatim>\<open>level.name\<close>, the first argument
  evaluated, raises the \<^verbatim>\<open>NameError\<close>); a \<^verbatim>\<open>ModelError\<close> in every other case.
  The class \<^verbatim>\<open>Hierarchy\<close> defines \<^verbatim>\<open>__len__\<close> and no \<^verbatim>\<open>__nonzero__\<close>, so
  \<^verbatim>\<open>not x\<close> for a hierarchy \<^verbatim>\<open>x\<close> asks for its length, which resolves its levels.
\<close>

definition Dimension_default_hierarchy_missing :: "heap \<Rightarrow> addr \<Rightarrow> addr res \<times> heap" where
  "Dimension_default_hierarchy_missing h self =
     (case dim_hierarchies (dims h self) of
        [entry] \<Rightarrow> (Return (snd entry), h)
      | [] \<Rightarrow>
          if length (Dimension_levels h self) = 1
          then
            (case dim_flat_hierarchy (dims h self) of
               None \<Rightarrow> (Raise (NameError ''level''), h)
             | Some flat \<Rightarrow>
                 (case Hierarchy_len h flat of
                    (Raise e, h') \<Rightarrow> (Raise e, h')
                  | (Return n, h') \<Rightarrow>
                      if n = 0 then (Raise (NameError ''level''), h') else (Return flat, h')))
          else if length (Dimension_levels h self) > 1
          then (Raise (ModelError (''There are no hierarchies in dimenson ''
                  @ dim_name (dims h self) @ '' and there are more than one level'')), h)
          else (Raise (ModelError (''There are no hierarchies in dimenson ''
                  @ dim_name (dims h self)
                  @ '' and there are no levels to make hierarchy from'')), h)
      | _ \<Rightarrow>
          (Raise (ModelError (''No default hierarchy specified in dimension ''
             @ apostrophe @ dim_name (dims h self) @ apostrophe
             @ '' and there is more ('' @ string_of_nat (length (dim_hierarchies (dims h self)))
             @ '') than one hierarchy defined'')), h))"

text \<open>
  \<^verbatim>\<open>Dimension._default_hierarchy()\<close>. The name looked up is
  \<^verbatim>\<open>default_hierarchy_name\<close>, or \<^verbatim>\<open>"default"\<close> when that is \<^verbatim>\<open>None\<close> or empty.
  The hierarchy found is returned when its truth test holds; when the lookup gives
  \<^verbatim>\<open>None\<close> the body above decides.
\<close>

definition Dimension_default_hierarchy :: "heap \<Rightarrow> addr \<Rightarrow> addr res \<times> heap" where
  "Dimension_default_hierarchy h self =
     (let hierarchy_name =
            (case dim_default_hierarchy_name (dims h self) of
               None \<Rightarrow> ''default''
             | Some n \<Rightarrow> if n = [] then ''default'' else n)
      in case map_of (dim_hierarchies (dims h self)) hierarchy_name of
           None \<Rightarrow> Dimension_default_hierarchy_missing h self
         | Some hierarchy \<Rightarrow>
             (case Hierarchy_len h hierarchy of
                (Raise e, h') \<Rightarrow> (Raise e, h')
              | (Return n, h') \<Rightarrow>
                  if n = 0 then Dimension_default_hierarchy_missing h' self
                  else (Return hierarchy, h')))"

text \<open>A hierarchy is asked for by name or given as the \<^verbatim>\<open>Hierarchy\<close> object.\<close>

datatype hierarchy_ref = HierarchyName string | HierarchyObj addr

text \<open>
  \<^verbatim>\<open>Dimension.hierarchy(obj=None)\<close>: the default hierarchy for \<^verbatim>\<open>None\<close>, the
  hierarchy of that name for a string (a \<^verbatim>\<open>ModelError\<close> when there is none), the
  object itself for a \<^verbatim>\<open>Hierarchy\<close>.
\<close>

definition Dimension_hierarchy :: "heap \<Rightarrow> addr \<Rightarrow> hierarchy_ref option \<Rightarrow> addr res \<times> heap" where
  "Dimension_hierarchy h self obj =
     (case obj of
        None \<Rightarrow> Dimension_default_hierarchy h self
      | Some (HierarchyName s) \<Rightarrow>
          (case map_of (dim_hierarchies (dims h self)) s of
             None \<Rightarrow> (Raise (ModelError (''No hierarchy '' @ s @ '' in dimension ''
                                @ dim_name (dims h self))), h)
           | Some hr \<Rightarrow> (Return hr, h))
      | Some (HierarchyObj hr) \<Rightarrow> (Return hr, h))"

section \<open>Creating attributes, levels, hierarchies and dimensions\<close>

text \<open>
  Sequencing of two steps, the second of which runs only when the first returns: an
  exception of the first step ends the whole, in the store that the step left.
\<close>

definition then_do :: "'a res \<times> heap \<Rightarrow> ('a \<Rightarrow> heap \<Rightarrow> 'b res \<times> heap) \<Rightarrow> 'b res \<times> heap" where
  "then_do m f = (case m of (Raise e, h) \<Rightarrow> (Raise e, h) | (Return x, h) \<Rightarrow> f x h)"

text \<open>A new object takes the next free address.\<close>

definition Attribute_new :: "heap \<Rightarrow> attribute \<Rightarrow> addr \<times> heap" where
  "Attribute_new h v =
     (next_addr h, h\<lparr>attrs := (attrs h)(next_addr h := v), next_addr := Suc (next_addr h)\<rparr>)"

definition Measure_new :: "heap \<Rightarrow> measure \<Rightarrow> addr \<times> heap" where
  "Measure_new h v =
     (next_addr h, h\<lparr>meass := (meass h)(next_addr h := v), next_addr := Suc (next_addr h)\<rparr>)"

definition MeasureAggregate_new :: "heap \<Rightarrow> measure_aggregate \<Rightarrow> addr \<times> heap" where
  "MeasureAggregate_new h v =
     (next_addr h, h\<lparr>aggs := (aggs h)(next_addr h := v), next_addr := Suc (next_addr h)\<rparr>)"

text \<open>The object that a class makes of a name alone: every other argument at its default.\<close>

definition Attribute_named :: "string \<Rightarrow> attribute" where
  "Attribute_named n =
     \<lparr>attr_name = n, attr_label = None, attr_description = None, attr_dimension = None,
      attr_locales = []\<rparr>"

definition Measure_named :: "string \<Rightarrow> measure" where
  "Measure_named n =
     \<lparr>meas_name = n, meas_label = None, meas_description = None, meas_aggregates = None\<rparr>"

definition MeasureAggregate_named :: "string \<Rightarrow> measure_aggregate" where
  "MeasureAggregate_named n =
     \<lparr>agg_name = n, agg_label = None, agg_description = None, agg_measure = None,
      agg_function = None\<rparr>"

text \<open>
  \<^verbatim>\<open>create_attribute(obj, class_)\<close>: a string becomes \<^verbatim>\<open>class_(obj)\<close>, a dictionary
  \<^verbatim>\<open>class_(**obj)\<close> (the dictionary is given as the fields of the object it makes),
  and anything else is returned as it is. The class is given by its two ways of
  making an object.
\<close>

datatype 'r attr_spec = SpecName string | SpecDict 'r | SpecObj addr

definition create_attribute ::
  "(heap \<Rightarrow> 'r \<Rightarrow> addr \<times> heap) \<Rightarrow> (string \<Rightarrow> 'r) \<Rightarrow> heap \<Rightarrow> 'r attr_spec \<Rightarrow> addr \<times> heap" where
  "create_attribute new named h obj =
     (case obj of
        SpecName s \<Rightarrow> new h (named s)
      | SpecDict r \<Rightarrow> new h r
      | SpecObj a \<Rightarrow> (a, h))"

text \<open>
  What a description stands for: the object made of the name, the object of the
  dictionary, or the object passed, as the table \<^verbatim>\<open>store\<close> has it.
\<close>

definition spec_value :: "(string \<Rightarrow> 'r) \<Rightarrow> (addr \<Rightarrow> 'r) \<Rightarrow> 'r attr_spec \<Rightarrow> 'r" where
  "spec_value named store spec =
     (case spec of SpecName s \<Rightarrow> named s | SpecDict r \<Rightarrow> r | SpecObj a \<Rightarrow> store a)"

text \<open>\<^verbatim>\<open>attribute_list(attributes, class_)\<close>: \<^verbatim>\<open>create_attribute\<close> of each, in order.\<close>

fun attribute_list ::
  "(heap \<Rightarrow> 'r \<Rightarrow> addr \<times> heap) \<Rightarrow> (string \<Rightarrow> 'r) \<Rightarrow> heap \<Rightarrow> 'r attr_spec list
   \<Rightarrow> addr list \<times> heap" where
  "attribute_list new named h [] = ([], h)"
| "attribute_list new named h (x # xs) =
     (case create_attribute new named h x of
        (a, h') \<Rightarrow> (case attribute_list new named h' xs of (as, h'') \<Rightarrow> (a # as, h'')))"

text \<open>\<^verbatim>\<open>Level.attribute(name)\<close>: the first attribute of that name.\<close>

definition Level_attribute :: "heap \<Rightarrow> addr \<Rightarrow> string \<Rightarrow> addr res" where
  "Level_attribute h self name =
     (case filter (\<lambda>a. attr_name (attrs h a) = name) (lvl_attributes (lvls h self)) of
        [] \<Rightarrow> Raise (NoSuchAttributeError name)
      | a # rest \<Rightarrow> Return a)"

text \<open>\<^verbatim>\<open>attribute.dimension = dimension\<close> for each attribute of a list.\<close>

fun set_attribute_dimensions :: "heap \<Rightarrow> addr list \<Rightarrow> addr option \<Rightarrow> heap" where
  "set_attribute_dimensions h [] d = h"
| "set_attribute_dimensions h (a # as) d =
     set_attribute_dimensions (h\<lparr>attrs := (attrs h)(a := (attrs h a)\<lparr>attr_dimension := d\<rparr>)\<rparr>) as d"

text \<open>\<^verbatim>\<open>str(x)\<close> of a dimension or \<^verbatim>\<open>None\<close>.\<close>

definition str_dimension :: "heap \<Rightarrow> addr option \<Rightarrow> string" where
  "str_dimension h d = (case d of None \<Rightarrow> ''None'' | Some x \<Rightarrow> dim_name (dims h x))"

text \<open>
  The three choices of \<^verbatim>\<open>Level.__init__\<close>, each over the attributes \<^verbatim>\<open>as\<close> of
  the level \<^verbatim>\<open>self\<close>: the key is the attribute named by \<^verbatim>\<open>key\<close>, or the first
  attribute; the label attribute is the one named, or the second attribute, or the key;
  the order attribute is the one named (its \<^verbatim>\<open>NoSuchAttributeError\<close> is raised again
  with a message of its own), or the first attribute.
\<close>

definition Level_init_key :: "heap \<Rightarrow> addr \<Rightarrow> addr list \<Rightarrow> string option \<Rightarrow> addr res" where
  "Level_init_key h self as key =
     (case key of
        Some k \<Rightarrow>
          if k \<noteq> [] then Level_attribute h self k
          else (case as of
                  a # rest \<Rightarrow> Return a
                | [] \<Rightarrow> Raise (ModelInconsistencyError ''Attribute list should not be empty''))
      | None \<Rightarrow>
          (case as of
             a # rest \<Rightarrow> Return a
           | [] \<Rightarrow> Raise (ModelInconsistencyError ''Attribute list should not be empty'')))"

definition Level_init_label_attribute ::
  "heap \<Rightarrow> addr \<Rightarrow> addr list \<Rightarrow> addr \<Rightarrow> string option \<Rightarrow> addr res" where
  "Level_init_label_attribute h self as k label_attribute =
     (if truthy label_attribute
      then Level_attribute h self (case label_attribute of Some n \<Rightarrow> n | None \<Rightarrow> [])
      else (case as of
              a # b # rest \<Rightarrow> Return b
            | _ \<Rightarrow> Return k))"

definition Level_init_order_attribute ::
  "heap \<Rightarrow> addr \<Rightarrow> addr list \<Rightarrow> string option \<Rightarrow> addr res" where
  "Level_init_order_attribute h self as order_attribute =
     (case order_attribute of
        Some n \<Rightarrow>
          if n \<noteq> []
          then
            (case Level_attribute h self n of
               Raise e \<Rightarrow>
                 Raise (NoSuchAttributeError
                          (''Unknown order attribute '' @ n @ '' in dimension ''
                           @ str_dimension h (lvl_dimension (lvls h self))
                           @ '', level '' @ lvl_name (lvls h self)))
             | Return a \<Rightarrow> Return a)
          else (case as of a # rest \<Rightarrow> Return a | [] \<Rightarrow> Raise (IndexError ''attributes''))
      | None \<Rightarrow> (case as of a # rest \<Rightarrow> Return a | [] \<Rightarrow> Raise (IndexError ''attributes'')))"

text \<open>
  \<^verbatim>\<open>Level.__init__\<close>: a \<^verbatim>\<open>ModelError\<close> for an empty attribute list; otherwise the
  attributes are created from their descriptions and given the level's dimension, and
  the key, the label attribute and the order attribute are chosen.
\<close>

definition Level_init ::
  "heap \<Rightarrow> string \<Rightarrow> attribute attr_spec list \<Rightarrow> addr option \<Rightarrow> string option \<Rightarrow> string option
   \<Rightarrow> string option \<Rightarrow> string option \<Rightarrow> addr res \<times> heap" where
  "Level_init h name attributes dimension key order_attribute label_attribute label =
     (let self = next_addr h;
          h0 = h\<lparr>lvls := (lvls h)(self :=
                   \<lparr>lvl_name = name, lvl_label = label, lvl_description = None,
                    lvl_dimension = dimension, lvl_attributes = [], lvl_key = None,
                    lvl_label_attribute = None, lvl_order_attribute = None\<rparr>),
                 next_addr := Suc self\<rparr>
      in if attributes = [] then (Raise (ModelError ''Attribute list should not be empty''), h0)
         else
           (case attribute_list Attribute_new Attribute_named h0 attributes of
              (as, h1) \<Rightarrow>
                (let h2 = h1\<lparr>lvls := (lvls h1)(self := (lvls h1 self)\<lparr>lvl_attributes := as\<rparr>)\<rparr>;
                     h3 = set_attribute_dimensions h2 as dimension
                 in case Level_init_key h3 self as key of
                      Raise e \<Rightarrow> (Raise e, h3)
                    | Return k \<Rightarrow>
                        (let h4 = h3\<lparr>lvls := (lvls h3)(self := (lvls h3 self)\<lparr>lvl_key := Some k\<rparr>)\<rparr>
                         in case Level_init_label_attribute h4 self as k label_attribute of
                              Raise e \<Rightarrow> (Raise e, h4)
                            | Return la \<Rightarrow>
                                (let h5 = h4\<lparr>lvls := (lvls h4)(self :=
                                            (lvls h4 self)\<lparr>lvl_label_attribute := Some la\<rparr>)\<rparr>
                                 in case Level_init_order_attribute h5 self as order_attribute of
                                      Raise e \<Rightarrow> (Raise e, h5)
                                    | Return oa \<Rightarrow>
                                        (Return self,
                                         h5\<lparr>lvls := (lvls h5)(self :=
                                              (lvls h5 self)\<lparr>lvl_order_attribute := Some oa\<rparr>)\<rparr>))))))"

text \<open>
  \<^verbatim>\<open>Hierarchy.__init__(name, levels, dimension=None, label=None)\<close>: the level
  references are kept and \<^verbatim>\<open>_levels\<close> is \<^verbatim>\<open>None\<close>; only when a dimension is given
  is the attribute \<^verbatim>\<open>dimension\<close> set and are the levels resolved at once.
\<close>

definition Hierarchy_init ::
  "heap \<Rightarrow> string \<Rightarrow> level_ref list \<Rightarrow> addr option \<Rightarrow> string option \<Rightarrow> addr res \<times> heap" where
  "Hierarchy_init h name levels dimension label =
     (let self = next_addr h;
          h0 = h\<lparr>hiers := (hiers h)(self :=
                   \<lparr>hier_name = name, hier_label = label, hier_description = None,
                    hier_level_refs = levels, hier_levels = None, hier_dimension = None\<rparr>),
                 next_addr := Suc self\<rparr>
      in case dimension of
           None \<Rightarrow> (Return self, h0)
         | Some d \<Rightarrow>
             (case Hierarchy_set_levels
                     (h0\<lparr>hiers := (hiers h0)(self := (hiers h0 self)\<lparr>hier_dimension := Some d\<rparr>)\<rparr>)
                     self levels of
                (Raise e, h1) \<Rightarrow> (Raise e, h1)
              | (Return u, h1) \<Rightarrow> (Return self, h1)))"

text \<open>
  \<^verbatim>\<open>Dimension._set_levels(levels)\<close>: the levels are stored under their names; the
  attributes of all levels are collected under their names, level after level; every
  attribute collected is given this dimension.
\<close>

definition Dimension_set_levels :: "heap \<Rightarrow> addr \<Rightarrow> addr list \<Rightarrow> heap" where
  "Dimension_set_levels h self levels =
     (let h1 = h\<lparr>dims := (dims h)(self := (dims h self)
                   \<lparr>dim_levels := od_from [] (map (\<lambda>l. (lvl_name (lvls h l), l)) levels),
                    dim_attributes := []\<rparr>)\<rparr>;
          collected =
            od_from []
              (concat (map (\<lambda>l. map (\<lambda>a. (attr_name (attrs h1 a), a)) (lvl_attributes (lvls h1 l)))
                         (Dimension_levels h1 self)));
          h2 = h1\<lparr>dims := (dims h1)(self := (dims h1 self)\<lparr>dim_attributes := collected\<rparr>)\<rparr>
      in set_attribute_dimensions h2 (od_values collected) (Some self))"

text \<open>\<^verbatim>\<open>hier.dimension = dimension\<close> for each hierarchy of a list.\<close>

fun set_hierarchy_dimensions :: "heap \<Rightarrow> addr list \<Rightarrow> addr \<Rightarrow> heap" where
  "set_hierarchy_dimensions h [] d = h"
| "set_hierarchy_dimensions h (x # xs) d =
     set_hierarchy_dimensions
       (h\<lparr>hiers := (hiers h)(x := (hiers h x)\<lparr>hier_dimension := Some d\<rparr>)\<rparr>) xs d"

text \<open>
  \<^verbatim>\<open>Dimension.__init__(name, levels, hierarchies=None, default_hierarchy_name=None,
  label=None, description=None)\<close>, with the levels and the hierarchies given as lists of
  objects (an absent list is the empty list: the source tests both with \<^verbatim>\<open>not\<close>).
  A \<^verbatim>\<open>ModelError\<close> when there is no level. The hierarchies given are stored under
  their names; when none is given, the hierarchy \<^verbatim>\<open>"default"\<close> over
  \<^verbatim>\<open>self.levels\<close> is created. Every hierarchy stored is given this dimension.
\<close>

definition Dimension_init ::
  "heap \<Rightarrow> string \<Rightarrow> addr list \<Rightarrow> addr list \<Rightarrow> string option \<Rightarrow> string option \<Rightarrow> string option
   \<Rightarrow> addr res \<times> heap" where
  "Dimension_init h name levels hierarchies default_hierarchy_name label description =
     (let self = next_addr h;
          h0 = h\<lparr>dims := (dims h)(self :=
                   \<lparr>dim_name = name, dim_label = label, dim_description = description,
                    dim_levels = [], dim_attributes = [], dim_hierarchies = [],
                    dim_flat_hierarchy = None, dim_default_hierarchy_name = None\<rparr>),
                 next_addr := Suc self\<rparr>
      in if levels = []
         then (Raise (ModelError (''No levels specified for dimension '' @ name)), h0)
         else
           (let h1 = Dimension_set_levels h0 self levels
            in case (if hierarchies \<noteq> []
                     then (Return (od_from [] (map (\<lambda>x. (hier_name (hiers h1 x), x)) hierarchies)), h1)
                     else (case Hierarchy_init h1 ''default''
                                  (map LevelObj (Dimension_levels h1 self)) None None of
                             (Raise e, h') \<Rightarrow> (Raise e, h')
                           | (Return hier, h') \<Rightarrow> (Return [(''default'', hier)], h'))) of
                 (Raise e, h2) \<Rightarrow> (Raise e, h2)
               | (Return hs, h2) \<Rightarrow>
                   (let h3 = h2\<lparr>dims := (dims h2)(self := (dims h2 self)\<lparr>dim_hierarchies := hs\<rparr>)\<rparr>;
                        h4 = set_hierarchy_dimensions h3 (od_values hs) self
                    in (Return self,
                        h4\<lparr>dims := (dims h4)(self := (dims h4 self)
                             \<lparr>dim_flat_hierarchy := None,
                              dim_default_hierarchy_name := default_hierarchy_name\<rparr>)\<rparr>))))"

section \<open>Models and their dimensions\<close>

text \<open>\<^verbatim>\<open>%s\<close> of a name that may be \<^verbatim>\<open>None\<close>.\<close>

definition str_opt :: "string option \<Rightarrow> string" where
  "str_opt v = (case v of None \<Rightarrow> ''None'' | Some s \<Rightarrow> s)"

text \<open>
  \<^verbatim>\<open>Model.add_dimension(dimension)\<close>: a \<^verbatim>\<open>ModelInconsistencyError\<close> when the name
  of the dimension is a key of \<^verbatim>\<open>_dimensions\<close>; otherwise the dimension is stored
  under its name. (\<^verbatim>\<open>assert_instance\<close> holds of every typed reference.)
\<close>

definition Model_add_dimension :: "heap \<Rightarrow> addr \<Rightarrow> addr \<Rightarrow> unit res \<times> heap" where
  "Model_add_dimension h self dimension =
     (if dim_name (dims h dimension) \<in> set (od_keys (model_dimensions (models h self)))
      then (Raise (ModelInconsistencyError
                     (''Dimension '' @ apostrophe @ dim_name (dims h dimension) @ apostrophe
                      @ '' already exists in model '' @ apostrophe
                      @ str_opt (model_name (models h self)) @ apostrophe)), h)
      else (Return (),
            h\<lparr>models := (models h)(self := (models h self)
                 \<lparr>model_dimensions :=
                    od_set (model_dimensions (models h self))
                      (dim_name (dims h dimension)) dimension\<rparr>)\<rparr>))"

text \<open>
  The loop of \<^verbatim>\<open>Model.add_cube\<close> over the dimensions of the cube.
  \<^verbatim>\<open>my_dimensions\<close> and \<^verbatim>\<open>my_dimension_names\<close> are computed once, before the loop.
  \<^verbatim>\<open>my_dimensions\<close> is a set of objects of a class that defines \<^verbatim>\<open>__eq__\<close> and no
  \<^verbatim>\<open>__hash__\<close>: in Python 2 its hash is that of the object's address, so
  \<^verbatim>\<open>dimension not in my_dimensions\<close> compares by identity.
\<close>

fun Model_add_cube_loop ::
  "heap \<Rightarrow> addr \<Rightarrow> addr \<Rightarrow> addr list \<Rightarrow> string list \<Rightarrow> addr list \<Rightarrow> unit res \<times> heap" where
  "Model_add_cube_loop h self cube my_dimensions my_dimension_names [] = (Return (), h)"
| "Model_add_cube_loop h self cube my_dimensions my_dimension_names (dimension # rest) =
     (if dimension \<notin> set my_dimensions
      then
        (if dim_name (dims h dimension) \<notin> set my_dimension_names
         then
           (case Model_add_dimension h self dimension of
              (Raise e, h') \<Rightarrow> (Raise e, h')
            | (Return u, h') \<Rightarrow>
                Model_add_cube_loop h' self cube my_dimensions my_dimension_names rest)
         else (Raise (ModelError (''Dimension '' @ dim_name (dims h dimension) @ '' of cube ''
                        @ cube_name (cubes h cube)
                        @ '' has different specification as model'' @ apostrophe
                        @ ''s dimension'')), h))
      else Model_add_cube_loop h self cube my_dimensions my_dimension_names rest)"

text \<open>
  \<^verbatim>\<open>Model.add_cube(cube)\<close>: the dimensions of the cube that the model does not hold
  are added, or the \<^verbatim>\<open>ModelError\<close> is raised for one whose name the model has for
  another object; then the cube is stored under its name.
\<close>

definition Model_add_cube :: "heap \<Rightarrow> addr \<Rightarrow> addr \<Rightarrow> unit res \<times> heap" where
  "Model_add_cube h self cube =
     (let my_dimensions = od_values (model_dimensions (models h self));
          my_dimension_names = map (\<lambda>dim. dim_name (dims h dim)) my_dimensions
      in case Model_add_cube_loop h self cube my_dimensions my_dimension_names
                (od_values (cube_dimensions (cubes h cube))) of
           (Raise e, h') \<Rightarrow> (Raise e, h')
         | (Return u, h') \<Rightarrow>
             (Return (),
              h'\<lparr>models := (models h')(self := (models h' self)
                   \<lparr>model_cubes :=
                      od_set (model_cubes (models h' self)) (cube_name (cubes h' cube)) cube\<rparr>)\<rparr>))"

section \<open>Cubes, measures and aggregates\<close>

text \<open>
  \<^verbatim>\<open>Cube.add_dimension(dimension)\<close>: a \<^verbatim>\<open>ModelError\<close> when the cube has a
  dimension of that name; otherwise the dimension is stored under its name.
\<close>

definition Cube_add_dimension :: "heap \<Rightarrow> addr \<Rightarrow> addr \<Rightarrow> unit res \<times> heap" where
  "Cube_add_dimension h self dimension =
     (if dim_name (dims h dimension) \<in> set (od_keys (cube_dimensions (cubes h self)))
      then (Raise (ModelError (''Dimension with name '' @ dim_name (dims h dimension)
                     @ '' already exits in cube '' @ cube_name (cubes h self))), h)
      else (Return (),
            h\<lparr>cubes := (cubes h)(self := (cubes h self)
                 \<lparr>cube_dimensions :=
                    od_set (cube_dimensions (cubes h self))
                      (dim_name (dims h dimension)) dimension\<rparr>)\<rparr>))"

fun Cube_add_dimensions :: "heap \<Rightarrow> addr \<Rightarrow> addr list \<Rightarrow> unit res \<times> heap" where
  "Cube_add_dimensions h self [] = (Return (), h)"
| "Cube_add_dimensions h self (dim # rest) =
     (case Cube_add_dimension h self dim of
        (Raise e, h') \<Rightarrow> (Raise e, h')
      | (Return u, h') \<Rightarrow> Cube_add_dimensions h' self rest)"

text \<open>
  The aggregate functions of a measure: \<^verbatim>\<open>self.aggregates or ["sum"]\<close>.
\<close>

definition measure_functions :: "measure \<Rightarrow> string list" where
  "measure_functions m =
     (case meas_aggregates m of None \<Rightarrow> [''sum''] | Some fs \<Rightarrow> if fs = [] then [''sum''] else fs)"

text \<open>
  The aggregate that \<^verbatim>\<open>Measure.default_aggregates()\<close> makes of the measure and one
  function: named \<^verbatim>\<open>"%s_%s" % (self.name, agg)\<close>, labelled (when the measure has a
  label) with the label, a dash between spaces (the three bytes of its UTF-8 form) and
  the function, and holding the measure's name and the function.
\<close>

definition default_aggregate :: "measure \<Rightarrow> string \<Rightarrow> measure_aggregate" where
  "default_aggregate m agg =
     \<lparr>agg_name = meas_name m @ ''_'' @ agg,
      agg_label =
        (if truthy (meas_label m)
         then Some (str_opt (meas_label m) @ [CHR 0x20, CHR 0xE2, CHR 0x80, CHR 0x93, CHR 0x20] @ agg)
         else None),
      agg_description = meas_description m,
      agg_measure = Some (meas_name m),
      agg_function = Some agg\<rparr>"

text \<open>The loop of \<^verbatim>\<open>Measure.default_aggregates()\<close> over the functions.\<close>

fun default_aggregates_loop :: "heap \<Rightarrow> addr \<Rightarrow> string list \<Rightarrow> addr list \<times> heap" where
  "default_aggregates_loop h self [] = ([], h)"
| "default_aggregates_loop h self (agg # rest) =
     (case MeasureAggregate_new h (default_aggregate (meass h self) agg) of
        (a, h') \<Rightarrow>
          (case default_aggregates_loop h' self rest of (as, h'') \<Rightarrow> (a # as, h'')))"

definition Measure_default_aggregates :: "heap \<Rightarrow> addr \<Rightarrow> addr list \<times> heap" where
  "Measure_default_aggregates h self =
     default_aggregates_loop h self (measure_functions (meass h self))"

text \<open>
  The two loops of \<^verbatim>\<open>Cube.__init__\<close> over aggregates. With a list of aggregates
  given: the \<^verbatim>\<open>NoSuchAttributeError\<close> for the first aggregate whose \<^verbatim>\<open>measure\<close>
  is set (not \<^verbatim>\<open>None\<close>, not empty) and is no key of \<^verbatim>\<open>_measures\<close>. With none
  given: the default aggregates of every measure, measure after measure.
\<close>

fun check_aggregates :: "heap \<Rightarrow> addr \<Rightarrow> addr list \<Rightarrow> unit res" where
  "check_aggregates h self [] = Return ()"
| "check_aggregates h self (aggregate # rest) =
     (case agg_measure (aggs h aggregate) of
        None \<Rightarrow> check_aggregates h self rest
      | Some m \<Rightarrow>
          if m \<noteq> [] \<and> m \<notin> set (od_keys (cube_measures (cubes h self)))
          then Raise (NoSuchAttributeError
                        (''No measure '' @ m @ '' for aggregate'' @ agg_name (aggs h aggregate)))
          else check_aggregates h self rest)"

fun all_default_aggregates :: "heap \<Rightarrow> addr list \<Rightarrow> addr list \<times> heap" where
  "all_default_aggregates h [] = ([], h)"
| "all_default_aggregates h (m # ms) =
     (case Measure_default_aggregates h m of
        (as, h') \<Rightarrow> (case all_default_aggregates h' ms of (bs, h'') \<Rightarrow> (as @ bs, h'')))"

text \<open>
  The setters of the properties \<^verbatim>\<open>Cube.measures\<close> and \<^verbatim>\<open>Cube.aggregates\<close>:
  \<^verbatim>\<open>OrderedDict((m.name, m) for m in ...)\<close>.
\<close>

definition Cube_set_measures :: "heap \<Rightarrow> addr \<Rightarrow> addr list \<Rightarrow> heap" where
  "Cube_set_measures h self ms =
     h\<lparr>cubes := (cubes h)(self := (cubes h self)
          \<lparr>cube_measures := od_from [] (map (\<lambda>m. (meas_name (meass h m), m)) ms)\<rparr>)\<rparr>"

definition Cube_set_aggregates :: "heap \<Rightarrow> addr \<Rightarrow> addr list \<Rightarrow> heap" where
  "Cube_set_aggregates h self as =
     h\<lparr>cubes := (cubes h)(self := (cubes h self)
          \<lparr>cube_aggregates := od_from [] (map (\<lambda>a. (agg_name (aggs h a), a)) as)\<rparr>)\<rparr>"

text \<open>
  The part of \<^verbatim>\<open>Cube.__init__\<close> that settles the aggregates: those given
  (\<^verbatim>\<open>Some\<close> list), created and checked against the measures, or, for \<^verbatim>\<open>None\<close>,
  the default aggregates of the cube's measures.
\<close>

definition Cube_init_aggregates ::
  "heap \<Rightarrow> addr \<Rightarrow> measure_aggregate attr_spec list option \<Rightarrow> addr list res \<times> heap" where
  "Cube_init_aggregates h self aggregates =
     (case aggregates of
        Some given \<Rightarrow>
          (case attribute_list MeasureAggregate_new MeasureAggregate_named h given of
             (as, h') \<Rightarrow>
               (case check_aggregates h' self as of
                  Raise e \<Rightarrow> (Raise e, h')
                | Return u \<Rightarrow> (Return as, h')))
      | None \<Rightarrow>
          (case all_default_aggregates h (od_values (cube_measures (cubes h self))) of
             (as, h') \<Rightarrow> (Return as, h')))"

text \<open>The new cube object, before its dimensions, measures and aggregates are set.\<close>

definition Cube_new ::
  "heap \<Rightarrow> string \<Rightarrow> string option \<Rightarrow> string option \<Rightarrow> string option \<Rightarrow> addr \<times> heap" where
  "Cube_new h name label description locale =
     (next_addr h,
      h\<lparr>cubes := (cubes h)(next_addr h :=
           \<lparr>cube_name = name, cube_label = label, cube_description = description,
            cube_locale = locale, cube_dimensions = [], cube_measures = [],
            cube_aggregates = [], cube_details = []\<rparr>),
         next_addr := Suc (next_addr h)\<rparr>)"

text \<open>
  \<^verbatim>\<open>Cube.__init__(name, dimensions, measures, aggregates, label, details,
  description, locale)\<close>. The dimensions are added one by one; the measures are created
  and stored under their names; the aggregates are settled and stored under their
  names; the details are created.
\<close>

definition Cube_init ::
  "heap \<Rightarrow> string \<Rightarrow> addr list \<Rightarrow> measure attr_spec list
   \<Rightarrow> measure_aggregate attr_spec list option \<Rightarrow> string option \<Rightarrow> attribute attr_spec list
   \<Rightarrow> string option \<Rightarrow> string option \<Rightarrow> addr res \<times> heap" where
  "Cube_init h name dimensions measure_specs aggregates label details description locale =
     (case Cube_new h name label description locale of
        (self, h0) \<Rightarrow>
          (case Cube_add_dimensions h0 self dimensions of
             (Raise e, h1) \<Rightarrow> (Raise e, h1)
           | (Return u, h1) \<Rightarrow>
               (case attribute_list Measure_new Measure_named h1 measure_specs of
                  (ms, h2) \<Rightarrow>
                    (case Cube_init_aggregates (Cube_set_measures h2 self ms) self aggregates of
                       (Raise e, h3) \<Rightarrow> (Raise e, h3)
                     | (Return as, h3) \<Rightarrow>
                         (case attribute_list Attribute_new Attribute_named
                                 (Cube_set_aggregates h3 self as) details of
                            (ds, h4) \<Rightarrow>
                              (Return self,
                               h4\<lparr>cubes := (cubes h4)(self := (cubes h4 self)
                                    \<lparr>cube_details := ds\<rparr>)\<rparr>))))))"

section \<open>Example stores\<close>

text \<open>
  The level \<^verbatim>\<open>year\<close> (object 0) with its one attribute (object 1), as
  \<^verbatim>\<open>Level("year", ["year"])\<close> leaves the empty store.
\<close>

definition year_level_example :: heap where
  "year_level_example =
     empty_heap
       \<lparr>attrs := (attrs empty_heap)
          (1 := \<lparr>attr_name = ''year'', attr_label = None, attr_description = None,
                 attr_dimension = None, attr_locales = []\<rparr>),
        lvls := (lvls empty_heap)
          (0 := \<lparr>lvl_name = ''year'', lvl_label = None, lvl_description = None,
                 lvl_dimension = None, lvl_attributes = [1], lvl_key = Some 1,
                 lvl_label_attribute = Some 1, lvl_order_attribute = Some 1\<rparr>),
        next_addr := 2\<rparr>"

text \<open>
  The levels \<^verbatim>\<open>year\<close> and \<^verbatim>\<open>month\<close> (objects 0 and 2, their attributes 1 and 3)
  and the hierarchies \<^verbatim>\<open>default\<close> (object 4, over both levels) and \<^verbatim>\<open>yearly\<close>
  (object 5, over \<^verbatim>\<open>year\<close>), created with the names of their levels and without
  a dimension.
\<close>

definition levels_and_hierarchies_example :: heap where
  "levels_and_hierarchies_example =
     empty_heap
       \<lparr>attrs := (attrs empty_heap)
          (1 := \<lparr>attr_name = ''year'', attr_label = None, attr_description = None,
                 attr_dimension = None, attr_locales = []\<rparr>,
           3 := \<lparr>attr_name = ''month'', attr_label = None, attr_description = None,
                 attr_dimension = None, attr_locales = []\<rparr>),
        lvls := (lvls empty_heap)
          (0 := \<lparr>lvl_name = ''year'', lvl_label = None, lvl_description = None,
                 lvl_dimension = None, lvl_attributes = [1], lvl_key = Some 1,
                 lvl_label_attribute = Some 1, lvl_order_attribute = Some 1\<rparr>,
           2 := \<lparr>lvl_name = ''month'', lvl_label = None, lvl_description = None,
                 lvl_dimension = None, lvl_attributes = [3], lvl_key = Some 3,
                 lvl_label_attribute = Some 3, lvl_order_attribute = Some 3\<rparr>),
        hiers := (hiers empty_heap)
          (4 := \<lparr>hier_name = ''default'', hier_label = None, hier_description = None,
                 hier_level_refs = [LevelName ''year'', LevelName ''month''],
                 hier_levels = None, hier_dimension = None\<rparr>,
           5 := \<lparr>hier_name = ''yearly'', hier_label = None, hier_description = None,
                 hier_level_refs = [LevelName ''year''],
                 hier_levels = None, hier_dimension = None\<rparr>),
        next_addr := 6\<rparr>"

text \<open>
  A flat dimension: the dimension \<^verbatim>\<open>date\<close> (object 2) that
  \<^verbatim>\<open>Dimension("date", [year])\<close> makes of that level, with the hierarchy that the
  constructor creates (object 3).
\<close>

definition flat_example :: heap where
  "flat_example =
     empty_heap
       \<lparr>attrs := (attrs empty_heap)
          (1 := \<lparr>attr_name = ''year'', attr_label = None, attr_description = None,
                 attr_dimension = Some 2, attr_locales = []\<rparr>),
        lvls := (lvls empty_heap)
          (0 := \<lparr>lvl_name = ''year'', lvl_label = None, lvl_description = None,
                 lvl_dimension = None, lvl_attributes = [1], lvl_key = Some 1,
                 lvl_label_attribute = Some 1, lvl_order_attribute = Some 1\<rparr>),
        hiers := (hiers empty_heap)
          (3 := \<lparr>hier_name = ''default'', hier_label = None, hier_description = None,
                 hier_level_refs = [LevelObj 0], hier_levels = None, hier_dimension = Some 2\<rparr>),
        dims := (dims empty_heap)
          (2 := \<lparr>dim_name = ''date'', dim_label = None, dim_description = None,
                 dim_levels = [(''year'', 0)], dim_attributes = [(''year'', 1)],
                 dim_hierarchies = [(''default'', 3)], dim_flat_hierarchy = None,
                 dim_default_hierarchy_name = None\<rparr>),
        next_addr := 4\<rparr>"

text \<open>
  A dimension with details: the level \<^verbatim>\<open>product\<close> (object 0) with the attributes
  \<^verbatim>\<open>code\<close> and \<^verbatim>\<open>name\<close> (objects 1 and 2), and the dimension \<^verbatim>\<open>product\<close>
  (object 3) over it, with its hierarchy (object 4).
\<close>

definition details_example :: heap where
  "details_example =
     empty_heap
       \<lparr>attrs := (attrs empty_heap)
          (1 := \<lparr>attr_name = ''code'', attr_label = None, attr_description = None,
                 attr_dimension = Some 3, attr_locales = []\<rparr>,
           2 := \<lparr>attr_name = ''name'', attr_label = None, attr_description = None,
                 attr_dimension = Some 3, attr_locales = []\<rparr>),
        lvls := (lvls empty_heap)
          (0 := \<lparr>lvl_name = ''product'', lvl_label = None, lvl_description = None,
                 lvl_dimension = None, lvl_attributes = [1, 2], lvl_key = Some 1,
                 lvl_label_attribute = Some 2, lvl_order_attribute = Some 1\<rparr>),
        hiers := (hiers empty_heap)
          (4 := \<lparr>hier_name = ''default'', hier_label = None, hier_description = None,
                 hier_level_refs = [LevelObj 0], hier_levels = None, hier_dimension = Some 3\<rparr>),
        dims := (dims empty_heap)
          (3 := \<lparr>dim_name = ''product'', dim_label = None, dim_description = None,
                 dim_levels = [(''product'', 0)],
                 dim_attributes = [(''code'', 1), (''name'', 2)],
                 dim_hierarchies = [(''default'', 4)], dim_flat_hierarchy = None,
                 dim_default_hierarchy_name = None\<rparr>),
        next_addr := 5\<rparr>"

text \<open>
  A dimension with two hierarchies and no default hierarchy name: the levels
  \<^verbatim>\<open>year\<close> and \<^verbatim>\<open>month\<close> (objects 0 and 2, their attributes 1 and 3), the
  hierarchies \<^verbatim>\<open>default\<close> (object 4, over both levels) and \<^verbatim>\<open>yearly\<close> (object 5,
  over \<^verbatim>\<open>year\<close>), and the dimension \<^verbatim>\<open>date\<close> (object 6) that
  \<^verbatim>\<open>Dimension("date", [year, month], [default, yearly])\<close> makes of them.
\<close>

definition two_hierarchies_example :: heap where
  "two_hierarchies_example =
     empty_heap
       \<lparr>attrs := (attrs empty_heap)
          (1 := \<lparr>attr_name = ''year'', attr_label = None, attr_description = None,
                 attr_dimension = Some 6, attr_locales = []\<rparr>,
           3 := \<lparr>attr_name = ''month'', attr_label = None, attr_description = None,
                 attr_dimension = Some 6, attr_locales = []\<rparr>),
        lvls := (lvls empty_heap)
          (0 := \<lparr>lvl_name = ''year'', lvl_label = None, lvl_description = None,
                 lvl_dimension = None, lvl_attributes = [1], lvl_key = Some 1,
                 lvl_label_attribute = Some 1, lvl_order_attribute = Some 1\<rparr>,
           2 := \<lparr>lvl_name = ''month'', lvl_label = None, lvl_description = None,
                 lvl_dimension = None, lvl_attributes = [3], lvl_key = Some 3,
                 lvl_label_attribute = Some 3, lvl_order_attribute = Some 3\<rparr>),
        hiers := (hiers empty_heap)
          (4 := \<lparr>hier_name = ''default'', hier_label = None, hier_description = None,
                 hier_level_refs = [LevelName ''year'', LevelName ''month''],
                 hier_levels = None, hier_dimension = Some 6\<rparr>,
           5 := \<lparr>hier_name = ''yearly'', hier_label = None, hier_description = None,
                 hier_level_refs = [LevelName ''year''],
                 hier_levels = None, hier_dimension = Some 6\<rparr>),
        dims := (dims empty_heap)
          (6 := \<lparr>dim_name = ''date'', dim_label = None, dim_description = None,
                 dim_levels = [(''year'', 0), (''month'', 2)],
                 dim_attributes = [(''year'', 1), (''month'', 3)],
                 dim_hierarchies = [(''default'', 4), (''yearly'', 5)],
                 dim_flat_hierarchy = None, dim_default_hierarchy_name = None\<rparr>),
        next_addr := 7\<rparr>"

text \<open>
  The same dimension with its first hierarchy named \<^verbatim>\<open>monthly\<close>; with the hierarchy
  \<^verbatim>\<open>yearly\<close> alone; and after the assignment \<^verbatim>\<open>dimension.hierarchies = {}\<close>.
\<close>

definition ambiguous_example :: heap where
  "ambiguous_example =
     two_hierarchies_example
       \<lparr>hiers := (hiers two_hierarchies_example)
          (4 := (hiers two_hierarchies_example 4)\<lparr>hier_name := ''monthly''\<rparr>),
        dims := (dims two_hierarchies_example)
          (6 := (dims two_hierarchies_example 6)
             \<lparr>dim_hierarchies := [(''monthly'', 4), (''yearly'', 5)]\<rparr>)\<rparr>"

definition single_hierarchy_example :: heap where
  "single_hierarchy_example =
     two_hierarchies_example
       \<lparr>dims := (dims two_hierarchies_example)
          (6 := (dims two_hierarchies_example 6)\<lparr>dim_hierarchies := [(''yearly'', 5)]\<rparr>)\<rparr>"

definition no_hierarchies_example :: heap where
  "no_hierarchies_example =
     two_hierarchies_example
       \<lparr>dims := (dims two_hierarchies_example)
          (6 := (dims two_hierarchies_example 6)\<lparr>dim_hierarchies := []\<rparr>)\<rparr>"

text \<open>
  The store of \<^verbatim>\<open>flat_example\<close> with a second dimension object named
  \<^verbatim>\<open>date\<close> (object 6); the cubes \<^verbatim>\<open>sales\<close> (object 4) and \<^verbatim>\<open>visits\<close>
  (object 8) over the dimension 2, the cube \<^verbatim>\<open>budget\<close> (object 7) over the
  dimension 6; and an empty model (object 5).
\<close>

definition model_example :: heap where
  "model_example =
     flat_example
       \<lparr>dims := (dims flat_example)
          (6 := \<lparr>dim_name = ''date'', dim_label = Some ''Budget date'', dim_description = None,
                 dim_levels = [(''year'', 0)], dim_attributes = [(''year'', 1)],
                 dim_hierarchies = [(''default'', 3)], dim_flat_hierarchy = None,
                 dim_default_hierarchy_name = None\<rparr>),
        cubes := (cubes flat_example)
          (4 := \<lparr>cube_name = ''sales'', cube_label = None, cube_description = None,
                 cube_locale = None, cube_dimensions = [(''date'', 2)], cube_measures = [],
                 cube_aggregates = [], cube_details = []\<rparr>,
           7 := \<lparr>cube_name = ''budget'', cube_label = None, cube_description = None,
                 cube_locale = None, cube_dimensions = [(''date'', 6)], cube_measures = [],
                 cube_aggregates = [], cube_details = []\<rparr>,
           8 := \<lparr>cube_name = ''visits'', cube_label = None, cube_description = None,
                 cube_locale = None, cube_dimensions = [(''date'', 2)], cube_measures = [],
                 cube_aggregates = [], cube_details = []\<rparr>),
        models := (models flat_example)
          (5 := \<lparr>model_name = Some ''shop'', model_label = None, model_description = None,
                 model_locale = None, model_dimensions = [], model_cubes = [],
                 model_translations = []\<rparr>),
        next_addr := 9\<rparr>"

text \<open>The same store after the model has been given the cube \<^verbatim>\<open>sales\<close>.\<close>

definition model_with_sales_example :: heap where
  "model_with_sales_example =
     model_example
       \<lparr>models := (models model_example)
          (5 := (models model_example 5)
             \<lparr>model_dimensions := [(''date'', 2)], model_cubes := [(''sales'', 4)]\<rparr>)\<rparr>"

section \<open>Properties of aggregate references\<close>

lemma rfind_lower: "- 1 \<le> rfind s c"
  by (induction s) (auto simp: Let_def)

lemma rfind_upper: "rfind s c < int (length s)"
  by (induction s) (auto simp: Let_def)

lemma rfind_absent: "rfind s c = - 1 \<longleftrightarrow> c \<notin> set s"
proof (induction s)
  case Nil
  show ?case by simp
next
  case (Cons x xs)
  have "- 1 \<le> rfind xs c" by (rule rfind_lower)
  with Cons show ?case by (auto simp: Let_def)
qed

lemma rfind_append: "c \<notin> set f \<Longrightarrow> rfind (m @ c # f) c = int (length m)"
proof (induction m)
  case Nil
  then have "rfind f c = - 1" by (simp add: rfind_absent)
  then show ?case by simp
next
  case (Cons x m)
  then show ?case by (simp add: Let_def)
qed

lemma rfind_split:
  assumes "c \<in> set s"
  shows "s = take (nat (rfind s c)) s @ c # drop (nat (rfind s c + 1)) s
         \<and> c \<notin> set (drop (nat (rfind s c + 1)) s)"
  using assms
proof (induction s)
  case Nil
  then show ?case by simp
next
  case (Cons x xs)
  show ?case
  proof (cases "c \<in> set xs")
    case True
    then have ne: "rfind xs c \<noteq> - 1" by (simp add: rfind_absent)
    moreover have "- 1 \<le> rfind xs c" by (rule rfind_lower)
    ultimately have ge: "0 \<le> rfind xs c" by linarith
    then have n1: "nat (rfind xs c + 1) = Suc (nat (rfind xs c))" by linarith
    from ge have n2: "nat (rfind xs c + 1 + 1) = Suc (nat (rfind xs c + 1))" by linarith
    from Cons.IH [OF True] ne n1 n2 show ?thesis by (simp add: Let_def)
  next
    case False
    then have "rfind xs c = - 1" by (simp add: rfind_absent)
    moreover from False Cons.prems have "x = c" by simp
    ultimately show ?thesis using False by simp
  qed
qed

text \<open>
  Claim C3. Joining a measure name and a function name and splitting the result gives
  both names back, for every measure name and every function name that is not empty and
  holds no underscore; \<^verbatim>\<open>aggregate_ref("amount", "sum")\<close> is \<^verbatim>\<open>"amount_sum"\<close>, which
  splits into \<^verbatim>\<open>("amount", "sum")\<close>.
\<close>

theorem split_aggregate_ref_roundtrip:
  "(f \<noteq> [] \<and> CHR ''_'' \<notin> set f
      \<longrightarrow> split_aggregate_ref (aggregate_ref m f) = Inr (m, f))
   \<and> aggregate_ref ''amount'' ''sum'' = ''amount_sum''
   \<and> split_aggregate_ref ''amount_sum'' = Inr (''amount'', ''sum'')"
proof -
  have general: "split_aggregate_ref (aggregate_ref m' f') = Inr (m', f')"
    if "f' \<noteq> []" and "CHR ''_'' \<notin> set f'" for m' f'
  proof -
    have r: "rfind (m' @ CHR ''_'' # f') (CHR ''_'') = int (length m')"
      using that(2) by (rule rfind_append)
    from that(1) have "0 < length f'" by simp
    moreover have "nat (int (length m') + 1) = Suc (length m')" by linarith
    ultimately show ?thesis using r
      by (simp add: split_aggregate_ref_def aggregate_ref_def Let_def)
  qed
  have ex: "aggregate_ref ''amount'' ''sum'' = ''amount_sum''"
    by (simp add: aggregate_ref_def)
  have "split_aggregate_ref (aggregate_ref ''amount'' ''sum'') = Inr (''amount'', ''sum'')"
    by (rule general) simp_all
  with ex general show ?thesis by simp
qed

theorem split_aggregate_ref_roundtrip_witness:
  "''count'' \<noteq> [] \<and> CHR ''_'' \<notin> set ''count''
   \<and> split_aggregate_ref (aggregate_ref ''unit_price'' ''count'')
       = Inr (''unit_price'', ''count'')"
  using split_aggregate_ref_roundtrip [of "''count''" "''unit_price''"] by simp

text \<open>
  Claim C4. \<^verbatim>\<open>split_aggregate_ref(s)\<close> raises the \<^verbatim>\<open>ArgumentError\<close> whose message
  suggests the intended name exactly when \<^verbatim>\<open>s\<close> holds no underscore or ends with its
  last underscore; every other \<^verbatim>\<open>s\<close> is split at its last underscore: the result
  \<^verbatim>\<open>(a, b)\<close> has \<^verbatim>\<open>s = a + "_" + b\<close> and no underscore in \<^verbatim>\<open>b\<close>.
\<close>

theorem split_aggregate_ref_cases:
  "(CHR ''_'' \<notin> set s \<or> (s \<noteq> [] \<and> last s = CHR ''_'')
      \<longrightarrow> split_aggregate_ref s
            = Inl (ArgumentError (''Invalid aggregate reference '' @ apostrophe @ s
                @ apostrophe @ ''. Did you mean '' @ apostrophe
                @ (if CHR ''_'' \<notin> set s then s @ ''_sum'' else s @ ''sum'')
                @ apostrophe @ ''?'')))
   \<and> (\<not> (CHR ''_'' \<notin> set s \<or> (s \<noteq> [] \<and> last s = CHR ''_''))
      \<longrightarrow> (\<exists>a b. split_aggregate_ref s = Inr (a, b) \<and> s = a @ CHR ''_'' # b
                 \<and> CHR ''_'' \<notin> set b))"
proof (cases "CHR ''_'' \<in> set s")
  case False
  then have "rfind s (CHR ''_'') = - 1" by (simp add: rfind_absent)
  with False show ?thesis by (simp add: split_aggregate_ref_def)
next
  case True
  define r where "r = rfind s (CHR ''_'')"
  define a where "a = take (nat r) s"
  define b where "b = drop (nat (r + 1)) s"
  from True have ne: "r \<noteq> - 1" by (simp add: r_def rfind_absent)
  have "- 1 \<le> r" unfolding r_def by (rule rfind_lower)
  with ne have ge: "0 \<le> r" by linarith
  have lt: "r < int (length s)" unfolding r_def by (rule rfind_upper)
  from rfind_split [OF True] have s: "s = a @ CHR ''_'' # b" and nb: "CHR ''_'' \<notin> set b"
    by (simp_all add: a_def b_def r_def)
  have empty: "b = [] \<longleftrightarrow> r \<ge> int (length s) - 1"
    using ge lt by (auto simp: b_def)
  have last: "last s = CHR ''_'' \<longleftrightarrow> b = []"
  proof
    assume l: "last s = CHR ''_''"
    show "b = []"
    proof (rule ccontr)
      assume "b \<noteq> []"
      with s have "last s = last b"
        by (metis last_appendR last_ConsR list.distinct(1))
      moreover from \<open>b \<noteq> []\<close> have "last b \<in> set b" by simp
      ultimately show False using l nb by simp
    qed
  next
    assume "b = []"
    with s have "s = a @ [CHR ''_'']" by simp
    then show "last s = CHR ''_''" by (metis last_snoc)
  qed
  from s have sne: "s \<noteq> []" by auto
  show ?thesis
  proof (cases "b = []")
    case True
    with empty have "r \<ge> int (length s) - 1" by simp
    with ne \<open>CHR ''_'' \<in> set s\<close> last True sne show ?thesis
      by (simp add: split_aggregate_ref_def r_def [symmetric])
  next
    case False
    with empty have "\<not> r \<ge> int (length s) - 1" by simp
    with ne have "split_aggregate_ref s = Inr (a, b)"
      by (simp add: split_aggregate_ref_def r_def [symmetric] a_def b_def)
    with s nb False last \<open>CHR ''_'' \<in> set s\<close> show ?thesis by auto
  qed
qed

theorem split_aggregate_ref_cases_witness:
  "CHR ''_'' \<notin> set ''noUnderscore''
   \<and> split_aggregate_ref ''noUnderscore''
       = Inl (ArgumentError (''Invalid aggregate reference '' @ apostrophe @ ''noUnderscore''
           @ apostrophe @ ''. Did you mean '' @ apostrophe @ ''noUnderscore_sum''
           @ apostrophe @ ''?''))
   \<and> last ''amount_'' = CHR ''_''
   \<and> split_aggregate_ref ''amount_''
       = Inl (ArgumentError (''Invalid aggregate reference '' @ apostrophe @ ''amount_''
           @ apostrophe @ ''. Did you mean '' @ apostrophe @ ''amount_sum''
           @ apostrophe @ ''?''))
   \<and> CHR ''_'' \<in> set ''unit_price_avg'' \<and> last ''unit_price_avg'' \<noteq> CHR ''_''
   \<and> (\<exists>a b. split_aggregate_ref ''unit_price_avg'' = Inr (a, b)
          \<and> ''unit_price_avg'' = a @ CHR ''_'' # b \<and> CHR ''_'' \<notin> set b)"
  using split_aggregate_ref_cases [of "''noUnderscore''"]
    split_aggregate_ref_cases [of "''amount_''"]
    split_aggregate_ref_cases [of "''unit_price_avg''"]
  by simp

section \<open>Properties of attribute references\<close>

text \<open>
  Claim C2. For an attribute whose dimension is \<^verbatim>\<open>d\<close>, \<^verbatim>\<open>ref()\<close> with the default
  arguments (\<^verbatim>\<open>simplify=True\<close>, no locale) returns the name of \<^verbatim>\<open>d\<close> when \<^verbatim>\<open>d\<close>
  has exactly one level and no level of \<^verbatim>\<open>d\<close> has more than one attribute, and the
  name of \<^verbatim>\<open>d\<close>, a dot and the attribute's name otherwise.
\<close>

theorem Attribute_ref_default:
  assumes "attr_dimension (attrs h a) = Some d"
  shows "Attribute_ref h a True None
         = Inr (if length (dim_levels (dims h d)) = 1
                   \<and> (\<forall>l \<in> set (od_values (dim_levels (dims h d))).
                         length (lvl_attributes (lvls h l)) \<le> 1)
                then dim_name (dims h d)
                else dim_name (dims h d) @ ''.'' @ attr_name (attrs h a))"
  using assms
  by (auto simp: Attribute_ref_def Dimension_is_flat_def Dimension_has_details_def
      Dimension_levels_def Level_has_details_def od_values_def list_ex_iff not_less)

text \<open>The example stores are what the constructors make.\<close>

lemma Level_init_year:
  "Level_init empty_heap ''year'' [SpecName ''year''] None None None None None
   = (Return 0, year_level_example)"
  by (simp add: year_level_example_def Level_init_def empty_heap_def Attribute_new_def
      Attribute_named_def create_attribute_def Level_init_key_def
      Level_init_label_attribute_def Level_init_order_attribute_def truthy_def Let_def)

lemma flat_example_built:
  "Dimension_init year_level_example ''date'' [0] [] None None None = (Return 2, flat_example)"
  by (simp add: flat_example_def year_level_example_def Dimension_init_def empty_heap_def
      Dimension_set_levels_def Dimension_levels_def od_values_def Hierarchy_init_def Let_def)

lemma two_hierarchies_example_built:
  "Dimension_init levels_and_hierarchies_example ''date'' [0, 2] [4, 5] None None None
   = (Return 6, two_hierarchies_example)"
  by (simp add: two_hierarchies_example_def levels_and_hierarchies_example_def
      Dimension_init_def empty_heap_def Dimension_set_levels_def Dimension_levels_def
      od_values_def Let_def)

theorem Attribute_ref_default_witness:
  "attr_dimension (attrs flat_example 1) = Some 2
   \<and> Attribute_ref flat_example 1 True None = Inr ''date''
   \<and> attr_dimension (attrs details_example 1) = Some 3
   \<and> Attribute_ref details_example 1 True None = Inr ''product.code''"
proof -
  have d1: "attr_dimension (attrs flat_example 1) = Some 2"
    by (simp add: flat_example_def)
  have d2: "attr_dimension (attrs details_example 1) = Some 3"
    by (simp add: details_example_def)
  from Attribute_ref_default [OF d1]
  have "Attribute_ref flat_example 1 True None = Inr ''date''"
    by (simp add: flat_example_def od_values_def)
  moreover from Attribute_ref_default [OF d2]
  have "Attribute_ref details_example 1 True None = Inr ''product.code''"
    by (simp add: details_example_def od_values_def)
  ultimately show ?thesis using d1 d2 by simp
qed

section \<open>Properties of the default hierarchy\<close>

lemma od_set_nonempty: "od_set d k v \<noteq> []"
  by (cases d) auto

lemma Hierarchy_set_levels_loop_nonempty:
  "Hierarchy_set_levels_loop h self levels = (Return u, h')
   \<Longrightarrow> levels \<noteq> [] \<or> hier_levels_dict (hiers h self) \<noteq> []
   \<Longrightarrow> hier_levels_dict (hiers h' self) \<noteq> []"
proof (induction levels arbitrary: h)
  case Nil
  then show ?case by simp
next
  case (Cons level levels)
  from Cons.prems(1) obtain l where
    rest: "Hierarchy_set_levels_loop
             (h\<lparr>hiers := (hiers h)(self := (hiers h self)
                  \<lparr>hier_levels :=
                     Some (od_set (hier_levels_dict (hiers h self)) (lvl_name (lvls h l)) l)\<rparr>)\<rparr>)
             self levels = (Return u, h')"
    by (auto split: option.splits res.splits)
  show ?case
    by (rule Cons.IH [OF rest]) (simp add: hier_levels_dict_def od_set_nonempty)
qed

text \<open>The length of a hierarchy, when the source can tell it, is never zero.\<close>

lemma Hierarchy_len_positive:
  assumes "Hierarchy_len h self = (Return n, h')"
  shows "0 < n"
proof -
  from assms obtain ls where ls: "Hierarchy_levels h self = (Return ls, h')" and n: "n = length ls"
    by (auto simp: Hierarchy_len_def split: prod.splits res.splits)
  have "hier_levels_dict (hiers h' self) \<noteq> []"
  proof (cases "hier_levels_dict (hiers h self) = []")
    case True
    with ls obtain u where
      s: "Hierarchy_set_levels h self (hier_level_refs (hiers h self)) = (Return u, h')"
      by (auto simp: Hierarchy_levels_def split: prod.splits res.splits)
    then have ne: "hier_level_refs (hiers h self) \<noteq> []"
      by (auto simp: Hierarchy_set_levels_def split: if_splits)
    with s show ?thesis
      by (auto simp: Hierarchy_set_levels_def dest: Hierarchy_set_levels_loop_nonempty)
  next
    case False
    with ls show ?thesis by (auto simp: Hierarchy_levels_def)
  qed
  moreover from ls have "ls = od_values (hier_levels_dict (hiers h' self))"
    by (auto simp: Hierarchy_levels_def split: prod.splits res.splits if_splits)
  ultimately show ?thesis using n by (simp add: od_values_def)
qed

text \<open>A hierarchy whose levels are resolved tells its length and changes nothing.\<close>

lemma Hierarchy_len_resolved:
  "hier_levels_dict (hiers h self) \<noteq> []
   \<Longrightarrow> Hierarchy_len h self = (Return (length (hier_levels_dict (hiers h self))), h)"
  by (simp add: Hierarchy_len_def Hierarchy_levels_def od_values_def)

text \<open>
  With no hierarchy, exactly one level and nothing cached, the default hierarchy is not
  made: the call ends in the \<^verbatim>\<open>NameError\<close> of the unbound name \<^verbatim>\<open>level\<close>.
\<close>

lemma Dimension_hierarchy_flat_NameError:
  assumes "dim_hierarchies (dims h self) = []"
    and "length (dim_levels (dims h self)) = 1"
    and "dim_flat_hierarchy (dims h self) = None"
  shows "Dimension_hierarchy h self None = (Raise (NameError ''level''), h)"
  using assms
  by (simp add: Dimension_hierarchy_def Dimension_default_hierarchy_def
      Dimension_default_hierarchy_missing_def Dimension_levels_def od_values_def)

text \<open>
  Claim C1, as the code has it. \<^verbatim>\<open>hierarchy()\<close> is \<^verbatim>\<open>hierarchy(None)\<close>, the default
  hierarchy. The name looked up is the default hierarchy name when one is set, and
  \<^verbatim>\<open>"default"\<close> when none is set. A hierarchy of that name is returned, once its truth
  test has resolved its levels (at once, with the store unchanged, when they are
  resolved already). When there is no hierarchy of that name: the only hierarchy is
  returned when there is exactly one; with two hierarchies or more the call fails with a
  \<^verbatim>\<open>ModelError\<close>; with no hierarchy and a number of levels other than one it fails with
  a \<^verbatim>\<open>ModelError\<close>.
\<close>

theorem Dimension_hierarchy_default:
  fixes h :: heap and self :: addr
  defines "name \<equiv> (case dim_default_hierarchy_name (dims h self) of
                      None \<Rightarrow> ''default'' | Some n \<Rightarrow> if n = [] then ''default'' else n)"
  defines "found \<equiv> map_of (dim_hierarchies (dims h self)) name"
  shows
  "(\<forall>hr. found = Some hr \<longrightarrow>
      Dimension_hierarchy h self None
      = (case Hierarchy_len h hr of
           (Raise e, h') \<Rightarrow> (Raise e, h')
         | (Return n, h') \<Rightarrow> (Return hr, h')))
   \<and> (\<forall>hr. found = Some hr \<and> hier_levels_dict (hiers h hr) \<noteq> [] \<longrightarrow>
         Dimension_hierarchy h self None = (Return hr, h))
   \<and> (\<forall>k hr. found = None \<and> dim_hierarchies (dims h self) = [(k, hr)] \<longrightarrow>
         Dimension_hierarchy h self None = (Return hr, h))
   \<and> (found = None \<and> 2 \<le> length (dim_hierarchies (dims h self)) \<longrightarrow>
         (\<exists>msg. Dimension_hierarchy h self None = (Raise (ModelError msg), h)))
   \<and> (dim_hierarchies (dims h self) = [] \<and> length (dim_levels (dims h self)) \<noteq> 1 \<longrightarrow>
         (\<exists>msg. Dimension_hierarchy h self None = (Raise (ModelError msg), h)))"
proof (intro conjI allI impI)
  fix hr assume f: "found = Some hr"
  show "Dimension_hierarchy h self None
      = (case Hierarchy_len h hr of
           (Raise e, h') \<Rightarrow> (Raise e, h')
         | (Return n, h') \<Rightarrow> (Return hr, h'))"
  proof (cases "Hierarchy_len h hr")
    case (Pair r h')
    show ?thesis
    proof (cases r)
      case (Raise e)
      with Pair f show ?thesis
        by (simp add: Dimension_hierarchy_def Dimension_default_hierarchy_def found_def name_def)
    next
      case (Return n)
      with Pair have "0 < n" by (auto dest: Hierarchy_len_positive)
      with Pair Return f show ?thesis
        by (simp add: Dimension_hierarchy_def Dimension_default_hierarchy_def found_def name_def)
    qed
  qed
next
  fix hr assume "found = Some hr \<and> hier_levels_dict (hiers h hr) \<noteq> []"
  then show "Dimension_hierarchy h self None = (Return hr, h)"
    by (simp add: Dimension_hierarchy_def Dimension_default_hierarchy_def found_def name_def
        Hierarchy_len_resolved)
next
  fix k hr assume a: "found = None \<and> dim_hierarchies (dims h self) = [(k, hr)]"
  then have "name \<noteq> k" by (auto simp: found_def split: if_splits)
  with a show "Dimension_hierarchy h self None = (Return hr, h)"
    by (simp add: Dimension_hierarchy_def Dimension_default_hierarchy_def found_def
        name_def [symmetric] Dimension_default_hierarchy_missing_def)
next
  assume a: "found = None \<and> 2 \<le> length (dim_hierarchies (dims h self))"
  then obtain x y zs where "dim_hierarchies (dims h self) = x # y # zs"
    by (auto simp: Suc_le_length_iff numeral_2_eq_2)
  with a show "\<exists>msg. Dimension_hierarchy h self None = (Raise (ModelError msg), h)"
    by (simp add: Dimension_hierarchy_def Dimension_default_hierarchy_def found_def name_def
        Dimension_default_hierarchy_missing_def del: string_of_nat.simps)
next
  assume "dim_hierarchies (dims h self) = [] \<and> length (dim_levels (dims h self)) \<noteq> 1"
  then show "\<exists>msg. Dimension_hierarchy h self None = (Raise (ModelError msg), h)"
    by (simp add: Dimension_hierarchy_def Dimension_default_hierarchy_def found_def name_def
        Dimension_default_hierarchy_missing_def Dimension_levels_def od_values_def)
qed

theorem Dimension_hierarchy_default_witness:
  "map_of (dim_hierarchies (dims two_hierarchies_example 6)) ''default'' = Some 4
   \<and> fst (Dimension_hierarchy two_hierarchies_example 6 None) = Return 4
   \<and> dim_hierarchies (dims single_hierarchy_example 6) = [(''yearly'', 5)]
   \<and> Dimension_hierarchy single_hierarchy_example 6 None = (Return 5, single_hierarchy_example)
   \<and> length (dim_hierarchies (dims ambiguous_example 6)) = 2
   \<and> (\<exists>msg. Dimension_hierarchy ambiguous_example 6 None
              = (Raise (ModelError msg), ambiguous_example))
   \<and> dim_hierarchies (dims no_hierarchies_example 6) = []
   \<and> length (dim_levels (dims no_hierarchies_example 6)) = 2
   \<and> (\<exists>msg. Dimension_hierarchy no_hierarchies_example 6 None
              = (Raise (ModelError msg), no_hierarchies_example))"
proof -
  have n1: "dim_default_hierarchy_name (dims two_hierarchies_example 6) = None"
    by (simp add: two_hierarchies_example_def)
  have f1: "map_of (dim_hierarchies (dims two_hierarchies_example 6)) ''default'' = Some 4"
    by (simp add: two_hierarchies_example_def)
  from Dimension_hierarchy_default [of two_hierarchies_example 6] n1 f1
  have "Dimension_hierarchy two_hierarchies_example 6 None
        = (case Hierarchy_len two_hierarchies_example 4 of
             (Raise e, h') \<Rightarrow> (Raise e, h')
           | (Return n, h') \<Rightarrow> (Return 4, h'))"
    by simp
  moreover have "fst (Hierarchy_len two_hierarchies_example 4) = Return 2"
    by (simp add: two_hierarchies_example_def empty_heap_def Hierarchy_len_def
        Hierarchy_levels_def Hierarchy_set_levels_def hier_levels_dict_def
        Dimension_level_def od_values_def)
  ultimately have r1: "fst (Dimension_hierarchy two_hierarchies_example 6 None) = Return 4"
    by (cases "Hierarchy_len two_hierarchies_example 4") auto
  have n2: "dim_default_hierarchy_name (dims single_hierarchy_example 6) = None"
    by (simp add: single_hierarchy_example_def two_hierarchies_example_def)
  have s2: "dim_hierarchies (dims single_hierarchy_example 6) = [(''yearly'', 5)]"
    by (simp add: single_hierarchy_example_def)
  from Dimension_hierarchy_default [of single_hierarchy_example 6] n2 s2
  have r2: "Dimension_hierarchy single_hierarchy_example 6 None
            = (Return 5, single_hierarchy_example)"
    by simp
  have n3: "dim_default_hierarchy_name (dims ambiguous_example 6) = None"
    by (simp add: ambiguous_example_def two_hierarchies_example_def)
  have s3: "dim_hierarchies (dims ambiguous_example 6) = [(''monthly'', 4), (''yearly'', 5)]"
    by (simp add: ambiguous_example_def)
  from Dimension_hierarchy_default [of ambiguous_example 6] n3 s3
  have r3: "\<exists>msg. Dimension_hierarchy ambiguous_example 6 None
                 = (Raise (ModelError msg), ambiguous_example)"
    by simp
  have s4: "dim_hierarchies (dims no_hierarchies_example 6) = []"
    by (simp add: no_hierarchies_example_def)
  have v4: "length (dim_levels (dims no_hierarchies_example 6)) = 2"
    by (simp add: no_hierarchies_example_def two_hierarchies_example_def)
  from Dimension_hierarchy_default [of no_hierarchies_example 6] s4 v4
  have r4: "\<exists>msg. Dimension_hierarchy no_hierarchies_example 6 None
                 = (Raise (ModelError msg), no_hierarchies_example)"
    by simp
  from f1 r1 s2 r2 s3 r3 s4 v4 r4 show ?thesis by simp
qed

text \<open>
  The claim as it is written lets a hierarchy be found by name only when a default
  hierarchy name is set, and has every dimension with two hierarchies and no such name
  fail. In \<^verbatim>\<open>two_hierarchies_example\<close> no name is set, there are two hierarchies and
  two levels, and the call returns the hierarchy named \<^verbatim>\<open>default\<close>.
\<close>

theorem Dimension_hierarchy_default_counterexample:
  "dim_default_hierarchy_name (dims two_hierarchies_example 6) = None
   \<and> length (dim_hierarchies (dims two_hierarchies_example 6)) = 2
   \<and> length (dim_levels (dims two_hierarchies_example 6)) = 2
   \<and> hier_name (hiers two_hierarchies_example 4) = ''default''
   \<and> fst (Dimension_hierarchy two_hierarchies_example 6 None) = Return 4
   \<and> (\<forall>msg. fst (Dimension_hierarchy two_hierarchies_example 6 None) \<noteq> Raise (ModelError msg))"
proof -
  have e: "fst (Dimension_hierarchy two_hierarchies_example 6 None) = Return 4"
    by (simp add: two_hierarchies_example_def empty_heap_def Dimension_hierarchy_def
        Dimension_default_hierarchy_def Hierarchy_len_def Hierarchy_levels_def
        Hierarchy_set_levels_def hier_levels_dict_def Dimension_level_def od_values_def
        Let_def)
  then show ?thesis by (simp add: two_hierarchies_example_def)
qed

section \<open>Properties of the constructor of a dimension\<close>

lemma set_attribute_dimensions_frame [simp]:
  "dims (set_attribute_dimensions h as d) = dims h"
  "hiers (set_attribute_dimensions h as d) = hiers h"
  "lvls (set_attribute_dimensions h as d) = lvls h"
  "next_addr (set_attribute_dimensions h as d) = next_addr h"
  by (induction h as d rule: set_attribute_dimensions.induct) simp_all

lemma set_hierarchy_dimensions_frame [simp]:
  "dims (set_hierarchy_dimensions h xs d) = dims h"
  "lvls (set_hierarchy_dimensions h xs d) = lvls h"
  "attrs (set_hierarchy_dimensions h xs d) = attrs h"
  "next_addr (set_hierarchy_dimensions h xs d) = next_addr h"
  by (induction h xs d rule: set_hierarchy_dimensions.induct) simp_all

lemma set_hierarchy_dimensions_fields [simp]:
  "hier_name (hiers (set_hierarchy_dimensions h xs d) x) = hier_name (hiers h x)"
  "hier_level_refs (hiers (set_hierarchy_dimensions h xs d) x) = hier_level_refs (hiers h x)"
  "hier_levels (hiers (set_hierarchy_dimensions h xs d) x) = hier_levels (hiers h x)"
  by (induction h xs d rule: set_hierarchy_dimensions.induct) simp_all

lemma set_hierarchy_dimensions_dimension:
  "hier_dimension (hiers (set_hierarchy_dimensions h xs d) x)
   = (if x \<in> set xs then Some d else hier_dimension (hiers h x))"
  by (induction h xs d rule: set_hierarchy_dimensions.induct) simp_all

lemma od_from_nonempty: "d \<noteq> [] \<or> ps \<noteq> [] \<Longrightarrow> od_from d ps \<noteq> []"
  by (induction d ps rule: od_from.induct) (auto simp: od_set_nonempty)

lemma od_set_fresh: "k \<notin> fst ` set d \<Longrightarrow> od_set d k v = d @ [(k, v)]"
  by (induction d) auto

lemma od_from_distinct:
  "distinct (map fst ps) \<Longrightarrow> fst ` set d \<inter> fst ` set ps = {} \<Longrightarrow> od_from d ps = d @ ps"
proof (induction d ps rule: od_from.induct)
  case (1 d)
  then show ?case by simp
next
  case (2 d p ps)
  from 2(3) have "fst p \<notin> fst ` set d" by auto
  then have s: "od_set d (fst p) (snd p) = d @ [p]" by (simp add: od_set_fresh)
  have "od_from (d @ [p]) ps = (d @ [p]) @ ps"
    using 2 by (intro 2(1)[unfolded s]) (auto simp: image_Un)
  with s show ?case by simp
qed

text \<open>Resolving the levels of a hierarchy changes hierarchies only.\<close>

lemma Hierarchy_set_levels_loop_dims:
  "Hierarchy_set_levels_loop h self levels = (r, h') \<Longrightarrow> dims h' = dims h"
  by (induction h self levels rule: Hierarchy_set_levels_loop.induct)
     (auto split: option.splits res.splits)

lemma Hierarchy_len_dims: "Hierarchy_len h self = (r, h') \<Longrightarrow> dims h' = dims h"
  by (auto simp: Hierarchy_len_def Hierarchy_levels_def Hierarchy_set_levels_def
      split: prod.splits res.splits if_splits dest: Hierarchy_set_levels_loop_dims)

text \<open>The exceptions of resolving the levels of a hierarchy.\<close>

lemma Hierarchy_set_levels_loop_error:
  "Hierarchy_set_levels_loop h self levels = (Raise e, h')
   \<Longrightarrow> (\<exists>m. e = AttributeError m \<or> e = KeyError m)"
  by (induction h self levels rule: Hierarchy_set_levels_loop.induct)
     (auto simp: Dimension_level_def split: option.splits res.splits level_ref.splits)

lemma Hierarchy_len_error:
  "Hierarchy_len h self = (Raise e, h')
   \<Longrightarrow> (\<exists>m. e = ModelInconsistencyError m \<or> e = AttributeError m \<or> e = KeyError m)"
  by (auto simp: Hierarchy_len_def Hierarchy_levels_def Hierarchy_set_levels_def
      split: prod.splits res.splits if_splits dest: Hierarchy_set_levels_loop_error)

text \<open>
  With a hierarchy in \<^verbatim>\<open>hierarchies\<close>, the default hierarchy never reaches the branch
  for no hierarchies, and so never ends in its \<^verbatim>\<open>NameError\<close>.
\<close>

lemma Dimension_hierarchy_no_NameError:
  assumes "dim_hierarchies (dims h self) \<noteq> []"
  shows "fst (Dimension_hierarchy h self None) \<noteq> Raise (NameError n)"
proof -
  have missing: "fst (Dimension_default_hierarchy_missing h' self) \<noteq> Raise (NameError n)"
    if "dims h' = dims h" for h'
  proof (cases "dim_hierarchies (dims h self)")
    case Nil
    with assms show ?thesis by simp
  next
    case (Cons x xs)
    with that show ?thesis
      by (cases xs) (simp_all add: Dimension_default_hierarchy_missing_def
          del: string_of_nat.simps)
  qed
  show ?thesis
  proof (cases "map_of (dim_hierarchies (dims h self))
                  (case dim_default_hierarchy_name (dims h self) of
                     None \<Rightarrow> ''default'' | Some n \<Rightarrow> if n = [] then ''default'' else n)")
    case None
    with missing [of h] show ?thesis
      by (simp add: Dimension_hierarchy_def Dimension_default_hierarchy_def)
  next
    case (Some hr)
    show ?thesis
    proof (cases "Hierarchy_len h hr")
      case (Pair r h')
      show ?thesis
      proof (cases r)
        case (Raise e)
        with Pair have "e \<noteq> NameError n" by (auto dest: Hierarchy_len_error)
        with Pair Raise Some show ?thesis
          by (simp add: Dimension_hierarchy_def Dimension_default_hierarchy_def)
      next
        case (Return k)
        with Pair have "0 < k" by (auto dest: Hierarchy_len_positive)
        with Pair Return Some show ?thesis
          by (simp add: Dimension_hierarchy_def Dimension_default_hierarchy_def)
      qed
    qed
  qed
qed

text \<open>
  Claim C9. The constructor of a dimension fails (with a \<^verbatim>\<open>ModelError\<close>) exactly for
  an empty level list. When it returns the new dimension, the dimension's
  \<^verbatim>\<open>hierarchies\<close> are not empty and each of them has the new dimension as its
  \<^verbatim>\<open>dimension\<close>; when no hierarchies were passed, they are the one new hierarchy
  named \<^verbatim>\<open>default\<close> over all levels of the dimension in their order (the levels
  passed, when their names differ). So the default hierarchy of the new dimension never
  reaches the branch for no hierarchies: it does not end in that branch's
  \<^verbatim>\<open>NameError\<close>.
\<close>

theorem Dimension_init_hierarchies:
  "(levels = [] \<longrightarrow>
      (\<exists>h'. Dimension_init h name levels hierarchies dhn label descr
             = (Raise (ModelError (''No levels specified for dimension '' @ name)), h')))
   \<and> (levels \<noteq> [] \<longrightarrow>
      (\<exists>h'. Dimension_init h name levels hierarchies dhn label descr = (Return (next_addr h), h')
         \<and> dim_hierarchies (dims h' (next_addr h)) \<noteq> []
         \<and> (\<forall>x \<in> set (od_values (dim_hierarchies (dims h' (next_addr h)))).
               hier_dimension (hiers h' x) = Some (next_addr h))
         \<and> (hierarchies = [] \<longrightarrow>
               dim_hierarchies (dims h' (next_addr h)) = [(''default'', Suc (next_addr h))]
               \<and> hier_name (hiers h' (Suc (next_addr h))) = ''default''
               \<and> hier_level_refs (hiers h' (Suc (next_addr h)))
                   = map LevelObj (od_values (dim_levels (dims h' (next_addr h))))
               \<and> (distinct (map (\<lambda>l. lvl_name (lvls h l)) levels) \<longrightarrow>
                     hier_level_refs (hiers h' (Suc (next_addr h))) = map LevelObj levels))
         \<and> (\<forall>n. fst (Dimension_hierarchy h' (next_addr h) None) \<noteq> Raise (NameError n))))"
proof (intro conjI impI)
  assume "levels = []"
  then show "\<exists>h'. Dimension_init h name levels hierarchies dhn label descr
                 = (Raise (ModelError (''No levels specified for dimension '' @ name)), h')"
    by (simp add: Dimension_init_def Let_def)
next
  assume ne: "levels \<noteq> []"
  have dl: "od_from [] (map (\<lambda>l. (lvl_name (lvls h l), l)) levels)
            = map (\<lambda>l. (lvl_name (lvls h l), l)) levels"
    if "distinct (map (\<lambda>l. lvl_name (lvls h l)) levels)"
  proof -
    have "od_from [] (map (\<lambda>l. (lvl_name (lvls h l), l)) levels)
          = [] @ map (\<lambda>l. (lvl_name (lvls h l), l)) levels"
      using that by (intro od_from_distinct) (simp_all add: comp_def)
    then show ?thesis by simp
  qed
  have "\<exists>h'. Dimension_init h name levels hierarchies dhn label descr = (Return (next_addr h), h')
         \<and> dim_hierarchies (dims h' (next_addr h)) \<noteq> []
         \<and> (\<forall>x \<in> set (od_values (dim_hierarchies (dims h' (next_addr h)))).
               hier_dimension (hiers h' x) = Some (next_addr h))
         \<and> (hierarchies = [] \<longrightarrow>
               dim_hierarchies (dims h' (next_addr h)) = [(''default'', Suc (next_addr h))]
               \<and> hier_name (hiers h' (Suc (next_addr h))) = ''default''
               \<and> hier_level_refs (hiers h' (Suc (next_addr h)))
                   = map LevelObj (od_values (dim_levels (dims h' (next_addr h))))
               \<and> (distinct (map (\<lambda>l. lvl_name (lvls h l)) levels) \<longrightarrow>
                     hier_level_refs (hiers h' (Suc (next_addr h))) = map LevelObj levels))"
  proof (cases "hierarchies = []")
    case True
    with ne show ?thesis
      by (auto simp: Dimension_init_def Let_def Hierarchy_init_def Dimension_set_levels_def
          Dimension_levels_def od_values_def dl comp_def)
  next
    case False
    with ne show ?thesis
      by (simp add: Dimension_init_def Let_def Dimension_set_levels_def
          Dimension_levels_def od_values_def set_hierarchy_dimensions_dimension
          od_from_nonempty)
  qed
  then obtain h' where
    r: "Dimension_init h name levels hierarchies dhn label descr = (Return (next_addr h), h')"
    and rest: "dim_hierarchies (dims h' (next_addr h)) \<noteq> []"
      "\<forall>x \<in> set (od_values (dim_hierarchies (dims h' (next_addr h)))).
               hier_dimension (hiers h' x) = Some (next_addr h)"
      "hierarchies = [] \<longrightarrow>
               dim_hierarchies (dims h' (next_addr h)) = [(''default'', Suc (next_addr h))]
               \<and> hier_name (hiers h' (Suc (next_addr h))) = ''default''
               \<and> hier_level_refs (hiers h' (Suc (next_addr h)))
                   = map LevelObj (od_values (dim_levels (dims h' (next_addr h))))
               \<and> (distinct (map (\<lambda>l. lvl_name (lvls h l)) levels) \<longrightarrow>
                     hier_level_refs (hiers h' (Suc (next_addr h))) = map LevelObj levels)"
    by blast
  from rest(1) have "\<forall>n. fst (Dimension_hierarchy h' (next_addr h) None) \<noteq> Raise (NameError n)"
    by (simp add: Dimension_hierarchy_no_NameError)
  with r rest show "\<exists>h'. Dimension_init h name levels hierarchies dhn label descr
         = (Return (next_addr h), h')
         \<and> dim_hierarchies (dims h' (next_addr h)) \<noteq> []
         \<and> (\<forall>x \<in> set (od_values (dim_hierarchies (dims h' (next_addr h)))).
               hier_dimension (hiers h' x) = Some (next_addr h))
         \<and> (hierarchies = [] \<longrightarrow>
               dim_hierarchies (dims h' (next_addr h)) = [(''default'', Suc (next_addr h))]
               \<and> hier_name (hiers h' (Suc (next_addr h))) = ''default''
               \<and> hier_level_refs (hiers h' (Suc (next_addr h)))
                   = map LevelObj (od_values (dim_levels (dims h' (next_addr h))))
               \<and> (distinct (map (\<lambda>l. lvl_name (lvls h l)) levels) \<longrightarrow>
                     hier_level_refs (hiers h' (Suc (next_addr h))) = map LevelObj levels))
         \<and> (\<forall>n. fst (Dimension_hierarchy h' (next_addr h) None) \<noteq> Raise (NameError n))"
    by blast
qed

theorem Dimension_init_hierarchies_witness:
  "(\<exists>h'. Dimension_init year_level_example ''date'' [0] [] None None None = (Return 2, h')
       \<and> dim_hierarchies (dims h' 2) = [(''default'', 3)]
       \<and> hier_name (hiers h' 3) = ''default''
       \<and> hier_dimension (hiers h' 3) = Some 2
       \<and> hier_level_refs (hiers h' 3) = [LevelObj 0])
   \<and> (\<exists>h'. Dimension_init levels_and_hierarchies_example ''date'' [0, 2] [4, 5] None None None
              = (Return 6, h')
       \<and> dim_hierarchies (dims h' 6) \<noteq> []
       \<and> (\<forall>n. fst (Dimension_hierarchy h' 6 None) \<noteq> Raise (NameError n)))
   \<and> (\<exists>h'. Dimension_init empty_heap ''date'' [] [] None None None
              = (Raise (ModelError ''No levels specified for dimension date''), h'))"
proof -
  have n1: "next_addr year_level_example = 2" by (simp add: year_level_example_def)
  have d1: "distinct (map (\<lambda>l. lvl_name (lvls year_level_example l)) [0])" by simp
  from Dimension_init_hierarchies [where levels = "[0]" and h = year_level_example
      and name = "''date''" and hierarchies = "[]" and dhn = None and label = None
      and descr = None]
  obtain h' where
    "Dimension_init year_level_example ''date'' [0] [] None None None = (Return 2, h')"
    "dim_hierarchies (dims h' 2) = [(''default'', 3)]"
    "hier_name (hiers h' 3) = ''default''"
    "\<forall>x \<in> set (od_values (dim_hierarchies (dims h' 2))). hier_dimension (hiers h' x) = Some 2"
    "hier_level_refs (hiers h' 3) = [LevelObj 0]"
    using n1 d1 by auto
  then have a: "\<exists>h'. Dimension_init year_level_example ''date'' [0] [] None None None
                     = (Return 2, h')
       \<and> dim_hierarchies (dims h' 2) = [(''default'', 3)]
       \<and> hier_name (hiers h' 3) = ''default''
       \<and> hier_dimension (hiers h' 3) = Some 2
       \<and> hier_level_refs (hiers h' 3) = [LevelObj 0]"
    by (auto simp: od_values_def)
  have n2: "next_addr levels_and_hierarchies_example = 6"
    by (simp add: levels_and_hierarchies_example_def)
  from Dimension_init_hierarchies [where levels = "[0, 2]"
      and h = levels_and_hierarchies_example and name = "''date''" and hierarchies = "[4, 5]"
      and dhn = None and label = None and descr = None]
  have b: "\<exists>h'. Dimension_init levels_and_hierarchies_example ''date'' [0, 2] [4, 5]
                   None None None = (Return 6, h')
       \<and> dim_hierarchies (dims h' 6) \<noteq> []
       \<and> (\<forall>n. fst (Dimension_hierarchy h' 6 None) \<noteq> Raise (NameError n))"
    using n2 by auto
  from Dimension_init_hierarchies [where levels = "[]" and h = empty_heap
      and name = "''date''" and hierarchies = "[]" and dhn = None and label = None
      and descr = None]
  have c: "\<exists>h'. Dimension_init empty_heap ''date'' [] [] None None None
              = (Raise (ModelError ''No levels specified for dimension date''), h')"
    by simp
  from a b c show ?thesis by blast
qed

section \<open>Properties of adding dimensions and cubes to a model\<close>

text \<open>The model's store after \<^verbatim>\<open>_dimensions\<close> of the model has become \<^verbatim>\<open>md\<close>.\<close>

lemma Model_add_dimension_new:
  assumes "dim_name (dims h d) \<notin> set (od_keys (model_dimensions (models h m)))"
  shows "Model_add_dimension h m d
         = (Return (), h\<lparr>models := (models h)(m := (models h m)
              \<lparr>model_dimensions := model_dimensions (models h m) @ [(dim_name (dims h d), d)]\<rparr>)\<rparr>)"
  using assms by (simp add: Model_add_dimension_def od_keys_def od_set_fresh)

lemma Model_add_dimension_present:
  assumes "dim_name (dims h d) \<in> set (od_keys (model_dimensions (models h m)))"
  shows "\<exists>msg. Model_add_dimension h m d = (Raise (ModelInconsistencyError msg), h)"
  using assms by (simp add: Model_add_dimension_def)

text \<open>The loop skips the dimensions that the model holds already.\<close>

lemma Model_add_cube_loop_skip:
  "set ds \<subseteq> set mine \<Longrightarrow> Model_add_cube_loop h m c mine names ds = (Return (), h)"
  by (induction ds) auto

text \<open>
  When the loop returns, it has appended entries to \<^verbatim>\<open>_dimensions\<close> of the model and
  changed nothing else, and every dimension of the cube that the model did not hold is
  among the entries appended, under its name.
\<close>

lemma Model_add_cube_loop_returns:
  "Model_add_cube_loop h m c mine names ds = (Return u, h')
   \<Longrightarrow> \<exists>extra. h' = h\<lparr>models := (models h)(m := (models h m)
                     \<lparr>model_dimensions := model_dimensions (models h m) @ extra\<rparr>)\<rparr>
              \<and> (\<forall>d \<in> set ds. d \<in> set mine \<or> (dim_name (dims h d), d) \<in> set extra)"
proof (induction ds arbitrary: h)
  case Nil
  then show ?case by (intro exI [of _ "[]"]) simp
next
  case (Cons d ds)
  show ?case
  proof (cases "d \<in> set mine")
    case True
    with Cons.prems have "Model_add_cube_loop h m c mine names ds = (Return u, h')" by simp
    from Cons.IH [OF this] True show ?thesis by auto
  next
    case False
    with Cons.prems have nn: "dim_name (dims h d) \<notin> set names"
      by (auto split: if_splits)
    with False Cons.prems have
      fresh: "dim_name (dims h d) \<notin> set (od_keys (model_dimensions (models h m)))"
      by (auto simp: Model_add_dimension_def split: if_splits)
    define h1 where "h1 = h\<lparr>models := (models h)(m := (models h m)
              \<lparr>model_dimensions := model_dimensions (models h m) @ [(dim_name (dims h d), d)]\<rparr>)\<rparr>"
    from fresh have "Model_add_dimension h m d = (Return (), h1)"
      unfolding h1_def by (rule Model_add_dimension_new)
    with False nn Cons.prems have "Model_add_cube_loop h1 m c mine names ds = (Return u, h')"
      by simp
    from Cons.IH [OF this] obtain extra where
      e: "h' = h1\<lparr>models := (models h1)(m := (models h1 m)
                     \<lparr>model_dimensions := model_dimensions (models h1 m) @ extra\<rparr>)\<rparr>"
      and r: "\<forall>x \<in> set ds. x \<in> set mine \<or> (dim_name (dims h1 x), x) \<in> set extra"
      by blast
    show ?thesis
    proof (intro exI [of _ "(dim_name (dims h d), d) # extra"] conjI)
      show "h' = h\<lparr>models := (models h)(m := (models h m)
                \<lparr>model_dimensions := model_dimensions (models h m)
                                        @ (dim_name (dims h d), d) # extra\<rparr>)\<rparr>"
        using e by (simp add: h1_def)
      show "\<forall>x \<in> set (d # ds). x \<in> set mine \<or>
               (dim_name (dims h x), x) \<in> set ((dim_name (dims h d), d) # extra)"
        using r by (auto simp: h1_def)
    qed
  qed
qed

text \<open>
  The loop on a cube whose dimensions have names of their own, none of which the model
  has for another object, in a model whose new names are not keys yet.
\<close>

lemma Model_add_cube_loop_ok:
  assumes "distinct (map (\<lambda>d. dim_name (dims h d)) ds)"
    and "\<forall>d \<in> set ds. d \<in> set mine \<or> dim_name (dims h d) \<notin> set names"
    and "\<forall>d \<in> set ds. d \<notin> set mine
            \<longrightarrow> dim_name (dims h d) \<notin> set (od_keys (model_dimensions (models h m)))"
  shows "Model_add_cube_loop h m c mine names ds
         = (Return (), h\<lparr>models := (models h)(m := (models h m)
              \<lparr>model_dimensions := model_dimensions (models h m)
                 @ map (\<lambda>d. (dim_name (dims h d), d)) (filter (\<lambda>d. d \<notin> set mine) ds)\<rparr>)\<rparr>)"
  using assms
proof (induction ds arbitrary: h)
  case Nil
  then show ?case by simp
next
  case (Cons d ds)
  show ?case
  proof (cases "d \<in> set mine")
    case True
    with Cons show ?thesis by simp
  next
    case False
    define h1 where "h1 = h\<lparr>models := (models h)(m := (models h m)
              \<lparr>model_dimensions := model_dimensions (models h m) @ [(dim_name (dims h d), d)]\<rparr>)\<rparr>"
    from False Cons.prems have nn: "dim_name (dims h d) \<notin> set names" by simp
    from False Cons.prems have
      fresh: "dim_name (dims h d) \<notin> set (od_keys (model_dimensions (models h m)))" by simp
    then have a: "Model_add_dimension h m d = (Return (), h1)"
      unfolding h1_def by (rule Model_add_dimension_new)
    have d1: "dims h1 = dims h" by (simp add: h1_def)
    have "Model_add_cube_loop h1 m c mine names ds
         = (Return (), h1\<lparr>models := (models h1)(m := (models h1 m)
              \<lparr>model_dimensions := model_dimensions (models h1 m)
                 @ map (\<lambda>d. (dim_name (dims h1 d), d)) (filter (\<lambda>d. d \<notin> set mine) ds)\<rparr>)\<rparr>)"
    proof (rule Cons.IH)
      show "distinct (map (\<lambda>d. dim_name (dims h1 d)) ds)" using Cons.prems(1) by (simp add: d1)
      show "\<forall>d \<in> set ds. d \<in> set mine \<or> dim_name (dims h1 d) \<notin> set names"
        using Cons.prems(2) by (simp add: d1)
      have "\<forall>x \<in> set ds. dim_name (dims h x) \<noteq> dim_name (dims h d)"
        using Cons.prems(1) by (force simp: image_iff)
      then show "\<forall>x \<in> set ds. x \<notin> set mine
            \<longrightarrow> dim_name (dims h1 x) \<notin> set (od_keys (model_dimensions (models h1 m)))"
        using Cons.prems(3) by (auto simp: h1_def od_keys_def)
    qed
    then have "Model_add_cube_loop h1 m c mine names ds
         = (Return (), h\<lparr>models := (models h)(m := (models h m)
              \<lparr>model_dimensions := model_dimensions (models h m)
                 @ (dim_name (dims h d), d)
                 # map (\<lambda>d. (dim_name (dims h d), d)) (filter (\<lambda>d. d \<notin> set mine) ds)\<rparr>)\<rparr>)"
      by (simp add: h1_def)
    with a False nn show ?thesis by (simp add: fun_upd_def)
  qed
qed

text \<open>
  The loop on a cube with a dimension whose name the model has for another object: the
  first such dimension raises the \<^verbatim>\<open>ModelError\<close>.
\<close>

lemma Model_add_cube_loop_conflict:
  assumes "distinct (map (\<lambda>d. dim_name (dims h d)) ds)"
    and "\<exists>d \<in> set ds. d \<notin> set mine \<and> dim_name (dims h d) \<in> set names"
    and "\<forall>d \<in> set ds. d \<notin> set mine \<and> dim_name (dims h d) \<notin> set names
            \<longrightarrow> dim_name (dims h d) \<notin> set (od_keys (model_dimensions (models h m)))"
  shows "\<exists>msg h'. Model_add_cube_loop h m c mine names ds = (Raise (ModelError msg), h')"
  using assms
proof (induction ds arbitrary: h)
  case Nil
  then show ?case by simp
next
  case (Cons d ds)
  show ?case
  proof (cases "d \<in> set mine")
    case True
    with Cons.prems have "\<exists>msg h'. Model_add_cube_loop h m c mine names ds
                              = (Raise (ModelError msg), h')"
      by (intro Cons.IH) auto
    with True show ?thesis by simp
  next
    case False
    show ?thesis
    proof (cases "dim_name (dims h d) \<in> set names")
      case True
      with False show ?thesis by simp
    next
      case nn: False
      define h1 where "h1 = h\<lparr>models := (models h)(m := (models h m)
              \<lparr>model_dimensions := model_dimensions (models h m) @ [(dim_name (dims h d), d)]\<rparr>)\<rparr>"
      from False nn Cons.prems have
        fresh: "dim_name (dims h d) \<notin> set (od_keys (model_dimensions (models h m)))" by simp
      then have a: "Model_add_dimension h m d = (Return (), h1)"
        unfolding h1_def by (rule Model_add_dimension_new)
      have d1: "dims h1 = dims h" by (simp add: h1_def)
      have "\<exists>msg h'. Model_add_cube_loop h1 m c mine names ds = (Raise (ModelError msg), h')"
      proof (rule Cons.IH)
        show "distinct (map (\<lambda>d. dim_name (dims h1 d)) ds)"
          using Cons.prems(1) by (simp add: d1)
        show "\<exists>d \<in> set ds. d \<notin> set mine \<and> dim_name (dims h1 d) \<in> set names"
          using Cons.prems(2) nn by (auto simp: d1)
        have "\<forall>x \<in> set ds. dim_name (dims h x) \<noteq> dim_name (dims h d)"
          using Cons.prems(1) by (force simp: image_iff)
        then show "\<forall>x \<in> set ds. x \<notin> set mine \<and> dim_name (dims h1 x) \<notin> set names
            \<longrightarrow> dim_name (dims h1 x) \<notin> set (od_keys (model_dimensions (models h1 m)))"
          using Cons.prems(3) by (auto simp: h1_def od_keys_def)
      qed
      with a False nn show ?thesis by simp
    qed
  qed
qed

lemma map_of_od_set: "map_of (od_set d k v) k = Some v"
  by (induction d) auto

text \<open>
  Claim C5. In a model whose dimensions are stored under their names, for a cube whose
  dimensions have names of their own: when no dimension of the cube has the name of
  another object in the model, \<^verbatim>\<open>add_cube\<close> returns, having appended to the model the
  dimensions of the cube that the model did not hold (each under its name, in the cube's
  order, none of those present a second time) and stored the cube; when some dimension
  of the cube has the name of another object in the model, it raises the
  \<^verbatim>\<open>ModelError\<close>. And after \<^verbatim>\<open>add_cube\<close> has returned for one cube, it returns for
  every cube over the same dimension objects and leaves the model's dimensions as they
  are.
\<close>

theorem Model_add_cube_dimensions:
  fixes h :: heap and m c :: addr
  defines "ds \<equiv> od_values (cube_dimensions (cubes h c))"
  defines "md \<equiv> model_dimensions (models h m)"
  shows
  "(od_keys md = map (\<lambda>d. dim_name (dims h d)) (od_values md)
      \<and> distinct (map (\<lambda>d. dim_name (dims h d)) ds)
      \<and> (\<forall>d \<in> set ds. d \<in> set (od_values md) \<or> dim_name (dims h d) \<notin> set (od_keys md))
    \<longrightarrow> (\<exists>h'. Model_add_cube h m c = (Return (), h')
           \<and> model_dimensions (models h' m)
               = md @ map (\<lambda>d. (dim_name (dims h d), d))
                        (filter (\<lambda>d. d \<notin> set (od_values md)) ds)
           \<and> map_of (model_cubes (models h' m)) (cube_name (cubes h c)) = Some c))
   \<and> (od_keys md = map (\<lambda>d. dim_name (dims h d)) (od_values md)
      \<and> distinct (map (\<lambda>d. dim_name (dims h d)) ds)
      \<and> (\<exists>d \<in> set ds. d \<notin> set (od_values md) \<and> dim_name (dims h d) \<in> set (od_keys md))
    \<longrightarrow> (\<exists>msg h'. Model_add_cube h m c = (Raise (ModelError msg), h')))
   \<and> (\<forall>h1 c2. Model_add_cube h m c = (Return (), h1)
          \<and> od_values (cube_dimensions (cubes h c2)) = ds
        \<longrightarrow> set ds \<subseteq> set (od_values (model_dimensions (models h1 m)))
            \<and> (\<exists>h2. Model_add_cube h1 m c2 = (Return (), h2)
                  \<and> model_dimensions (models h2 m) = model_dimensions (models h1 m)))"
proof (intro conjI impI allI)
  assume a: "od_keys md = map (\<lambda>d. dim_name (dims h d)) (od_values md)
      \<and> distinct (map (\<lambda>d. dim_name (dims h d)) ds)
      \<and> (\<forall>d \<in> set ds. d \<in> set (od_values md) \<or> dim_name (dims h d) \<notin> set (od_keys md))"
  then have "Model_add_cube_loop h m c (od_values md)
               (map (\<lambda>d. dim_name (dims h d)) (od_values md)) ds
             = (Return (), h\<lparr>models := (models h)(m := (models h m)
                 \<lparr>model_dimensions := model_dimensions (models h m)
                    @ map (\<lambda>d. (dim_name (dims h d), d))
                        (filter (\<lambda>d. d \<notin> set (od_values md)) ds)\<rparr>)\<rparr>)"
    by (intro Model_add_cube_loop_ok) (auto simp: md_def)
  then show "\<exists>h'. Model_add_cube h m c = (Return (), h')
           \<and> model_dimensions (models h' m)
               = md @ map (\<lambda>d. (dim_name (dims h d), d))
                        (filter (\<lambda>d. d \<notin> set (od_values md)) ds)
           \<and> map_of (model_cubes (models h' m)) (cube_name (cubes h c)) = Some c"
    by (simp add: Model_add_cube_def Let_def md_def [symmetric] ds_def [symmetric]
        map_of_od_set)
next
  assume a: "od_keys md = map (\<lambda>d. dim_name (dims h d)) (od_values md)
      \<and> distinct (map (\<lambda>d. dim_name (dims h d)) ds)
      \<and> (\<exists>d \<in> set ds. d \<notin> set (od_values md) \<and> dim_name (dims h d) \<in> set (od_keys md))"
  then have "\<exists>msg h'. Model_add_cube_loop h m c (od_values md)
               (map (\<lambda>d. dim_name (dims h d)) (od_values md)) ds
             = (Raise (ModelError msg), h')"
    by (intro Model_add_cube_loop_conflict) (auto simp: md_def)
  then show "\<exists>msg h'. Model_add_cube h m c = (Raise (ModelError msg), h')"
    by (auto simp: Model_add_cube_def Let_def md_def [symmetric] ds_def [symmetric])
next
  fix h1 c2
  assume a: "Model_add_cube h m c = (Return (), h1)
          \<and> od_values (cube_dimensions (cubes h c2)) = ds"
  then obtain h' where
    l: "Model_add_cube_loop h m c (od_values md)
          (map (\<lambda>d. dim_name (dims h d)) (od_values md)) ds = (Return (), h')"
    and h1: "h1 = h'\<lparr>models := (models h')(m := (models h' m)
                   \<lparr>model_cubes :=
                      od_set (model_cubes (models h' m)) (cube_name (cubes h' c)) c\<rparr>)\<rparr>"
    by (auto simp: Model_add_cube_def Let_def md_def ds_def split: prod.splits res.splits)
  from Model_add_cube_loop_returns [OF l] obtain extra where
    e: "h' = h\<lparr>models := (models h)(m := (models h m)
                     \<lparr>model_dimensions := model_dimensions (models h m) @ extra\<rparr>)\<rparr>"
    and r: "\<forall>d \<in> set ds. d \<in> set (od_values md) \<or> (dim_name (dims h d), d) \<in> set extra"
    by blast
  from e h1 have md1: "model_dimensions (models h1 m) = md @ extra"
    and c1: "cubes h1 = cubes h"
    by (simp_all add: md_def)
  from r md1 have sub: "set ds \<subseteq> set (od_values (model_dimensions (models h1 m)))"
    by (force simp: od_values_def)
  from a c1 have "od_values (cube_dimensions (cubes h1 c2)) = ds" by simp
  from sub show "set ds \<subseteq> set (od_values (model_dimensions (models h1 m)))" .
  from sub have "Model_add_cube_loop h1 m c2 (od_values (model_dimensions (models h1 m)))
          (map (\<lambda>d. dim_name (dims h1 d)) (od_values (model_dimensions (models h1 m))))
          (od_values (cube_dimensions (cubes h1 c2))) = (Return (), h1)"
    using \<open>od_values (cube_dimensions (cubes h1 c2)) = ds\<close>
    by (simp add: Model_add_cube_loop_skip)
  then show "\<exists>h2. Model_add_cube h1 m c2 = (Return (), h2)
                  \<and> model_dimensions (models h2 m) = model_dimensions (models h1 m)"
    by (simp add: Model_add_cube_def Let_def)
qed

text \<open>
  Claim C10. \<^verbatim>\<open>add_dimension\<close> raises the \<^verbatim>\<open>ModelInconsistencyError\<close> whenever the
  name of the dimension is a key of the model's dimensions, also when the entry of that
  name is the very object passed; \<^verbatim>\<open>add_cube\<close> passes by the dimensions that the model
  holds, so a cube over dimensions of the model is added with the model's dimensions
  left as they are.
\<close>

theorem Model_add_dimension_registered:
  "(dim_name (dims h d) \<in> set (od_keys (model_dimensions (models h m)))
      \<longrightarrow> (\<exists>msg. Model_add_dimension h m d = (Raise (ModelInconsistencyError msg), h)))
   \<and> ((dim_name (dims h d), d) \<in> set (model_dimensions (models h m))
      \<longrightarrow> (\<exists>msg. Model_add_dimension h m d = (Raise (ModelInconsistencyError msg), h)))
   \<and> (set (od_values (cube_dimensions (cubes h c)))
         \<subseteq> set (od_values (model_dimensions (models h m)))
      \<longrightarrow> (\<exists>h'. Model_add_cube h m c = (Return (), h')
             \<and> model_dimensions (models h' m) = model_dimensions (models h m)))"
proof (intro conjI impI)
  assume "dim_name (dims h d) \<in> set (od_keys (model_dimensions (models h m)))"
  then show "\<exists>msg. Model_add_dimension h m d = (Raise (ModelInconsistencyError msg), h)"
    by (rule Model_add_dimension_present)
next
  assume "(dim_name (dims h d), d) \<in> set (model_dimensions (models h m))"
  then have "dim_name (dims h d) \<in> set (od_keys (model_dimensions (models h m)))"
    by (force simp: od_keys_def)
  then show "\<exists>msg. Model_add_dimension h m d = (Raise (ModelInconsistencyError msg), h)"
    by (rule Model_add_dimension_present)
next
  assume "set (od_values (cube_dimensions (cubes h c)))
         \<subseteq> set (od_values (model_dimensions (models h m)))"
  then show "\<exists>h'. Model_add_cube h m c = (Return (), h')
             \<and> model_dimensions (models h' m) = model_dimensions (models h m)"
    by (simp add: Model_add_cube_def Let_def Model_add_cube_loop_skip)
qed

lemma model_example_fields:
  "model_dimensions (models model_example 5) = []"
  "cube_dimensions (cubes model_example 4) = [(''date'', 2)]"
  "cube_dimensions (cubes model_example 8) = [(''date'', 2)]"
  "cube_name (cubes model_example 4) = ''sales''"
  "dim_name (dims model_example 2) = ''date''"
  by (simp_all add: model_example_def flat_example_def)

lemma model_with_sales_example_fields:
  "model_dimensions (models model_with_sales_example 5) = [(''date'', 2)]"
  "cube_dimensions (cubes model_with_sales_example 7) = [(''date'', 6)]"
  "cube_dimensions (cubes model_with_sales_example 8) = [(''date'', 2)]"
  "dim_name (dims model_with_sales_example 2) = ''date''"
  "dim_name (dims model_with_sales_example 6) = ''date''"
  by (simp_all add: model_with_sales_example_def model_example_def flat_example_def)

lemma model_with_sales_example_built:
  "Model_add_cube model_example 5 4 = (Return (), model_with_sales_example)"
  by (simp add: Model_add_cube_def Model_add_dimension_def Let_def od_values_def od_keys_def
      model_with_sales_example_def model_example_def flat_example_def)

theorem Model_add_cube_dimensions_witness:
  "(\<exists>h'. Model_add_cube model_example 5 4 = (Return (), h')
       \<and> model_dimensions (models h' 5) = [(''date'', 2)]
       \<and> map_of (model_cubes (models h' 5)) ''sales'' = Some 4)
   \<and> (\<exists>msg h'. Model_add_cube model_with_sales_example 5 7 = (Raise (ModelError msg), h'))
   \<and> Model_add_cube model_example 5 4 = (Return (), model_with_sales_example)
   \<and> (\<exists>h2. Model_add_cube model_with_sales_example 5 8 = (Return (), h2)
          \<and> model_dimensions (models h2 5) = [(''date'', 2)])"
proof -
  from Model_add_cube_dimensions [of model_example 5 4]
  have a: "\<exists>h'. Model_add_cube model_example 5 4 = (Return (), h')
       \<and> model_dimensions (models h' 5) = [(''date'', 2)]
       \<and> map_of (model_cubes (models h' 5)) ''sales'' = Some 4"
    by (simp add: model_example_fields od_keys_def od_values_def)
  from Model_add_cube_dimensions [of model_with_sales_example 5 7]
  have b: "\<exists>msg h'. Model_add_cube model_with_sales_example 5 7 = (Raise (ModelError msg), h')"
    by (simp add: model_with_sales_example_fields od_keys_def od_values_def)
  from Model_add_cube_dimensions [of model_example 5 4]
  have "\<forall>h1 c2. Model_add_cube model_example 5 4 = (Return (), h1)
          \<and> od_values (cube_dimensions (cubes model_example c2))
              = od_values (cube_dimensions (cubes model_example 4))
        \<longrightarrow> (\<exists>h2. Model_add_cube h1 5 c2 = (Return (), h2)
                  \<and> model_dimensions (models h2 5) = model_dimensions (models h1 5))"
    by blast
  then have "Model_add_cube model_example 5 4 = (Return (), model_with_sales_example)
          \<and> od_values (cube_dimensions (cubes model_example 8))
              = od_values (cube_dimensions (cubes model_example 4))
        \<longrightarrow> (\<exists>h2. Model_add_cube model_with_sales_example 5 8 = (Return (), h2)
                  \<and> model_dimensions (models h2 5)
                      = model_dimensions (models model_with_sales_example 5))"
    by blast
  then have c: "\<exists>h2. Model_add_cube model_with_sales_example 5 8 = (Return (), h2)
          \<and> model_dimensions (models h2 5) = [(''date'', 2)]"
    by (simp add: model_with_sales_example_built model_example_fields
        model_with_sales_example_fields)
  from a b c show ?thesis by (simp add: model_with_sales_example_built)
qed

theorem Model_add_dimension_registered_witness:
  "dim_name (dims model_with_sales_example 2)
     \<in> set (od_keys (model_dimensions (models model_with_sales_example 5)))
   \<and> (dim_name (dims model_with_sales_example 2), 2)
       \<in> set (model_dimensions (models model_with_sales_example 5))
   \<and> (\<exists>msg. Model_add_dimension model_with_sales_example 5 2
              = (Raise (ModelInconsistencyError msg), model_with_sales_example))
   \<and> (\<exists>h'. Model_add_cube model_with_sales_example 5 8 = (Return (), h')
          \<and> model_dimensions (models h' 5) = [(''date'', 2)])"
  using Model_add_dimension_registered [of model_with_sales_example 2 5 8]
  by (simp add: model_with_sales_example_fields od_keys_def od_values_def)

end
